theory Spec2Isabelle
  imports Complex_Main "HOL-Library.AList"
begin

section \<open>Values and documents\<close>

text \<open>
  The backend (\<^verbatim>\<open>src/backend/server.py\<close>) keeps users, projects, tasks and comments as
  MongoDB documents, which the handlers read and write as Python dictionaries. A
  dictionary is modelled as an association list in insertion order; the values that
  occur in the documents of this program are \<^verbatim>\<open>None\<close>, strings and timestamps.

  \<^item> \<open>VDate t\<close> is a timestamp, \<open>t\<close> microseconds after the epoch (UTC). The program
    stores timestamps as ISO-8601 text (\<^verbatim>\<open>serialize_datetime\<close>, \<^verbatim>\<open>isoformat()\<close>) and
    parses the text back where it computes with it (\<^verbatim>\<open>datetime.fromisoformat\<close>); the
    two forms denote the same instant and are identified here.
  \<^item> \<open>VStr s\<close> is any other string. Enum members (\<^verbatim>\<open>TaskStatus\<close>, \<^verbatim>\<open>TaskPriority\<close>)
    are \<^verbatim>\<open>str\<close> subclasses and are stored as their string values.

  Python floats are IEEE 754 binary64 numbers; the section on floating point models
  them with the rounding of every operation.
\<close>

datatype TaskStatus = TODO | IN_PROGRESS | IN_REVIEW | DONE

datatype TaskPriority = LOW | MEDIUM | HIGH | CRITICAL

fun TaskStatus_value :: "TaskStatus \<Rightarrow> string" where
  "TaskStatus_value TODO = ''TODO''"
| "TaskStatus_value IN_PROGRESS = ''IN_PROGRESS''"
| "TaskStatus_value IN_REVIEW = ''IN_REVIEW''"
| "TaskStatus_value DONE = ''DONE''"

fun TaskPriority_value :: "TaskPriority \<Rightarrow> string" where
  "TaskPriority_value LOW = ''LOW''"
| "TaskPriority_value MEDIUM = ''MEDIUM''"
| "TaskPriority_value HIGH = ''HIGH''"
| "TaskPriority_value CRITICAL = ''CRITICAL''"

datatype val = VNone | VStr string | VDate int

type_synonym doc = "(string \<times> val) list"

text \<open>Python truthiness: \<^verbatim>\<open>None\<close> and the empty string are false, a datetime (and a
  non-empty ISO text) is true.\<close>

fun truthy :: "val \<Rightarrow> bool" where
  "truthy VNone = False"
| "truthy (VStr s) = (s \<noteq> [])"
| "truthy (VDate t) = True"

text \<open>\<^verbatim>\<open>d.get(k)\<close>: the value, or \<^verbatim>\<open>None\<close> for a missing key.\<close>

definition dict_get :: "doc \<Rightarrow> string \<Rightarrow> val" where
  "dict_get d k = (case map_of d k of None \<Rightarrow> VNone | Some v \<Rightarrow> v)"

text \<open>\<^verbatim>\<open>k in d\<close>.\<close>

definition dict_in :: "string \<Rightarrow> doc \<Rightarrow> bool" where
  "dict_in k d = (map_of d k \<noteq> None)"

text \<open>\<^verbatim>\<open>d[k] = v\<close> is \<open>AList.update k v d\<close>: an existing key keeps its place, a new
  one is appended. \<^verbatim>\<open>d.update(u)\<close> and MongoDB's \<^verbatim>\<open>$set\<close> assign the entries of \<open>u\<close> one
  after the other.\<close>

definition dict_update :: "doc \<Rightarrow> doc \<Rightarrow> doc" where
  "dict_update d u = fold (\<lambda>(k, v). AList.update k v) u d"

text \<open>The comprehension \<^verbatim>\<open>{k: v for k, v in m.items() if v is not None}\<close>.\<close>

definition non_null :: "doc \<Rightarrow> doc" where
  "non_null m = filter (\<lambda>(k, v). v \<noteq> VNone) m"

section \<open>The entity store\<close>

record db =
  db_users :: "doc list"
  db_projects :: "doc list"
  db_tasks :: "doc list"
  db_comments :: "doc list"

text \<open>A query \<^verbatim>\<open>{k: v, ...}\<close> selects the documents that hold \<open>v\<close> under \<open>k\<close> for each of
  its entries. A collection is the list of its documents in insertion order.\<close>

definition matches :: "doc \<Rightarrow> doc \<Rightarrow> bool" where
  "matches q d = list_all (\<lambda>(k, v). map_of d k = Some v) q"

definition find_docs :: "doc \<Rightarrow> doc list \<Rightarrow> doc list" where
  "find_docs q coll = filter (matches q) coll"

text \<open>\<^verbatim>\<open>cursor.to_list(n)\<close> returns at most \<open>n\<close> documents of the cursor.\<close>

definition to_list :: "nat \<Rightarrow> doc list \<Rightarrow> doc list" where
  "to_list n cur = take n cur"

text \<open>\<^verbatim>\<open>find_one\<close> returns the first match or \<^verbatim>\<open>None\<close>. A match of \<^verbatim>\<open>{"id": x}\<close> holds
  the key \<^verbatim>\<open>id\<close>, so it is a non-empty (true) dictionary and the handlers' test
  \<^verbatim>\<open>if not task\<close> is the test for \<open>None\<close>.\<close>

definition find_one :: "doc \<Rightarrow> doc list \<Rightarrow> doc option" where
  "find_one q coll = List.find (matches q) coll"

text \<open>\<^verbatim>\<open>update_one(q, {"$set": u})\<close> changes the first match only.\<close>

fun update_one :: "doc \<Rightarrow> doc \<Rightarrow> doc list \<Rightarrow> doc list" where
  "update_one q u [] = []"
| "update_one q u (d # ds) =
     (if matches q d then dict_update d u # ds else d # update_one q u ds)"

definition insert_one :: "doc \<Rightarrow> doc list \<Rightarrow> doc list" where
  "insert_one d coll = coll @ [d]"

definition count_documents :: "doc \<Rightarrow> doc list \<Rightarrow> nat" where
  "count_documents q coll = length (find_docs q coll)"

datatype error =
    HTTPException nat string
  | ValidationError
  | ValueError
  | TypeError

section \<open>Request models\<close>

text \<open>A field of a JSON request body is absent, \<^verbatim>\<open>null\<close> or given. A model field declared
  \<^verbatim>\<open>Optional[T] = d\<close> takes the default \<open>d\<close> when absent and \<^verbatim>\<open>None\<close> when \<^verbatim>\<open>null\<close>.
  Required fields are plain values (a body without them never reaches a handler).
  Field names carry a prefix (\<open>uu_\<close>, \<open>pu_\<close>, \<open>tu_\<close>, \<open>tc_\<close>) since several models
  share names.\<close>

datatype 'a field = Absent | Null | Given 'a

fun optional :: "'a option \<Rightarrow> 'a field \<Rightarrow> 'a option" where
  "optional d Absent = d"
| "optional d Null = None"
| "optional d (Given x) = Some x"

fun dump_str :: "string option \<Rightarrow> val" where
  "dump_str None = VNone"
| "dump_str (Some s) = VStr s"

fun dump_status :: "TaskStatus option \<Rightarrow> val" where
  "dump_status None = VNone"
| "dump_status (Some s) = VStr (TaskStatus_value s)"

fun dump_priority :: "TaskPriority option \<Rightarrow> val" where
  "dump_priority None = VNone"
| "dump_priority (Some p) = VStr (TaskPriority_value p)"

record UserUpdate =
  uu_name :: "string field"
  uu_email :: "string field"
  uu_avatar_color :: "string field"

definition UserUpdate_model_dump :: "UserUpdate \<Rightarrow> doc" where
  "UserUpdate_model_dump m =
     [(''name'', dump_str (optional None (uu_name m))),
      (''email'', dump_str (optional None (uu_email m))),
      (''avatar_color'', dump_str (optional None (uu_avatar_color m)))]"

record ProjectUpdate =
  pu_name :: "string field"
  pu_description :: "string field"

definition ProjectUpdate_model_dump :: "ProjectUpdate \<Rightarrow> doc" where
  "ProjectUpdate_model_dump m =
     [(''name'', dump_str (optional None (pu_name m))),
      (''description'', dump_str (optional None (pu_description m)))]"

record TaskCreate =
  tc_title :: string
  tc_description :: string
  tc_project_id :: string
  tc_assigned_to :: "string field"
  tc_priority :: "TaskPriority field"

definition TaskCreate_model_dump :: "TaskCreate \<Rightarrow> doc" where
  "TaskCreate_model_dump m =
     [(''title'', VStr (tc_title m)),
      (''description'', VStr (tc_description m)),
      (''project_id'', VStr (tc_project_id m)),
      (''assigned_to'', dump_str (optional None (tc_assigned_to m))),
      (''priority'', dump_priority (optional (Some MEDIUM) (tc_priority m)))]"

record TaskUpdate =
  tu_title :: "string field"
  tu_description :: "string field"
  tu_assigned_to :: "string field"
  tu_status :: "TaskStatus field"
  tu_priority :: "TaskPriority field"

definition TaskUpdate_model_dump :: "TaskUpdate \<Rightarrow> doc" where
  "TaskUpdate_model_dump m =
     [(''title'', dump_str (optional None (tu_title m))),
      (''description'', dump_str (optional None (tu_description m))),
      (''assigned_to'', dump_str (optional None (tu_assigned_to m))),
      (''status'', dump_status (optional None (tu_status m))),
      (''priority'', dump_priority (optional None (tu_priority m)))]"

text \<open>\<^verbatim>\<open>Task(**kw)\<close> followed by \<^verbatim>\<open>serialize_datetime(task.model_dump())\<close>: every field
  takes the keyword argument when there is one and its declared default otherwise
  (\<open>new_id\<close> is the fresh UUID, \<open>t_created\<close> and \<open>t_updated\<close> are the readings of the
  clock by the two default factories); \<^verbatim>\<open>None\<close> for a field that is not \<^verbatim>\<open>Optional\<close>
  fails validation.\<close>

definition Task :: "string \<Rightarrow> int \<Rightarrow> int \<Rightarrow> doc \<Rightarrow> error + doc" where
  "Task new_id t_created t_updated kw =
     (let arg = (\<lambda>k dflt. case map_of kw k of None \<Rightarrow> dflt | Some v \<Rightarrow> v);
          task =
            [(''id'', arg ''id'' (VStr new_id)),
             (''title'', arg ''title'' VNone),
             (''description'', arg ''description'' VNone),
             (''project_id'', arg ''project_id'' VNone),
             (''assigned_to'', arg ''assigned_to'' VNone),
             (''status'', arg ''status'' (VStr (TaskStatus_value TODO))),
             (''priority'', arg ''priority'' (VStr (TaskPriority_value MEDIUM))),
             (''created_at'', arg ''created_at'' (VDate t_created)),
             (''updated_at'', arg ''updated_at'' (VDate t_updated)),
             (''completed_at'', arg ''completed_at'' VNone)]
      in if list_all (\<lambda>k. dict_get task k \<noteq> VNone)
              [''id'', ''title'', ''description'', ''project_id'', ''status'',
               ''priority'', ''created_at'', ''updated_at'']
         then Inr task else Inl ValidationError)"

section \<open>Update and create handlers\<close>

text \<open>A handler takes the store and returns its response (or the exception it raises)
  together with the store it leaves behind. The readings of \<^verbatim>\<open>datetime.now\<close> are
  arguments, one for each call in the handler's text.\<close>

definition update_user :: "db \<Rightarrow> string \<Rightarrow> UserUpdate \<Rightarrow> (error + doc) \<times> db" where
  "update_user s user_id user_data =
     (case find_one [(''id'', VStr user_id)] (db_users s) of
        None \<Rightarrow> (Inl (HTTPException 404 ''User not found''), s)
      | Some user \<Rightarrow>
          (let update_data = non_null (UserUpdate_model_dump user_data) in
           if update_data \<noteq> [] then
             (Inr (dict_update user update_data),
              s\<lparr>db_users := update_one [(''id'', VStr user_id)] update_data (db_users s)\<rparr>)
           else (Inr user, s)))"

definition update_project :: "db \<Rightarrow> string \<Rightarrow> int \<Rightarrow> ProjectUpdate \<Rightarrow> (error + doc) \<times> db" where
  "update_project s project_id t_updated project_data =
     (case find_one [(''id'', VStr project_id)] (db_projects s) of
        None \<Rightarrow> (Inl (HTTPException 404 ''Project not found''), s)
      | Some project \<Rightarrow>
          (let update_data = non_null (ProjectUpdate_model_dump project_data) in
           if update_data \<noteq> [] then
             (let update_data = AList.update ''updated_at'' (VDate t_updated) update_data
              in (Inr (dict_update project update_data),
                  s\<lparr>db_projects :=
                      update_one [(''id'', VStr project_id)] update_data (db_projects s)\<rparr>))
           else (Inr project, s)))"

definition create_task :: "db \<Rightarrow> string \<Rightarrow> int \<Rightarrow> int \<Rightarrow> TaskCreate \<Rightarrow> (error + doc) \<times> db" where
  "create_task s new_id t_created t_updated task_data =
     (case find_one [(''id'', VStr (tc_project_id task_data))] (db_projects s) of
        None \<Rightarrow> (Inl (HTTPException 404 ''Project not found''), s)
      | Some project \<Rightarrow>
          (let assigned_to = dump_str (optional None (tc_assigned_to task_data)) in
           if truthy assigned_to \<and> find_one [(''id'', assigned_to)] (db_users s) = None
           then (Inl (HTTPException 404 ''Assigned user not found''), s)
           else
             (case Task new_id t_created t_updated (TaskCreate_model_dump task_data) of
                Inl e \<Rightarrow> (Inl e, s)
              | Inr task \<Rightarrow> (Inr task, s\<lparr>db_tasks := insert_one task (db_tasks s)\<rparr>))))"

definition update_task :: "db \<Rightarrow> string \<Rightarrow> int \<Rightarrow> int \<Rightarrow> TaskUpdate \<Rightarrow> (error + doc) \<times> db" where
  "update_task s task_id t_updated t_completed task_data =
     (case find_one [(''id'', VStr task_id)] (db_tasks s) of
        None \<Rightarrow> (Inl (HTTPException 404 ''Task not found''), s)
      | Some task \<Rightarrow>
          (let update_data = non_null (TaskUpdate_model_dump task_data) in
           if update_data \<noteq> [] then
             (let update_data = AList.update ''updated_at'' (VDate t_updated) update_data;
                  update_data =
                    (if dict_in ''status'' update_data
                        \<and> dict_get update_data ''status'' = VStr (TaskStatus_value DONE)
                     then AList.update ''completed_at'' (VDate t_completed) update_data
                     else if dict_in ''status'' update_data
                        \<and> dict_get update_data ''status'' \<noteq> VStr (TaskStatus_value DONE)
                     then AList.update ''completed_at'' VNone update_data
                     else update_data)
              in (Inr (dict_update task update_data),
                  s\<lparr>db_tasks := update_one [(''id'', VStr task_id)] update_data (db_tasks s)\<rparr>))
           else (Inr task, s)))"

definition update_task_status :: "db \<Rightarrow> string \<Rightarrow> int \<Rightarrow> int \<Rightarrow> TaskStatus \<Rightarrow> (error + doc) \<times> db" where
  "update_task_status s task_id t_updated t_completed status =
     (case find_one [(''id'', VStr task_id)] (db_tasks s) of
        None \<Rightarrow> (Inl (HTTPException 404 ''Task not found''), s)
      | Some task \<Rightarrow>
          (let update_data =
                 [(''status'', VStr (TaskStatus_value status)), (''updated_at'', VDate t_updated)];
               update_data =
                 (if status = DONE
                  then AList.update ''completed_at'' (VDate t_completed) update_data
                  else AList.update ''completed_at'' VNone update_data)
           in (Inr (dict_update task update_data),
               s\<lparr>db_tasks := update_one [(''id'', VStr task_id)] update_data (db_tasks s)\<rparr>)))"

section \<open>Floating point\<close>

text \<open>
  A Python \<^verbatim>\<open>float\<close> is an IEEE 754 binary64 number. A finite float is modelled by the
  rational it denotes, and every float operation returns its exact result rounded to
  the nearest float, ties to the even significand (\<open>fl\<close>): this is what the hardware does
  for \<^verbatim>\<open>+\<close>, \<^verbatim>\<open>-\<close>, \<^verbatim>\<open>*\<close> and \<^verbatim>\<open>/\<close>, and what CPython does for the conversion of an
  \<^verbatim>\<open>int\<close>, for the true division of two \<^verbatim>\<open>int\<close>s and for \<^verbatim>\<open>round(x, n)\<close>.

  \<^item> \<open>round_half_even y\<close> is the integer nearest to \<open>y\<close>, the even one of two.
  \<^item> \<open>bit_length n\<close> is \<^verbatim>\<open>int.bit_length\<close>, and \<open>expo y\<close> is the binary exponent of
    \<open>y > 0\<close>: the \<open>e\<close> with \<open>2^e \<le> y < 2^(e+1)\<close>.
  \<^item> \<open>fl x\<close> keeps 53 significant bits of \<open>x\<close>; below \<open>2^-1022\<close> the spacing of the
    floats stays \<open>2^-1074\<close> (subnormal numbers).

  Overflow to infinity, NaN and the sign of zero are not modelled: the floats of this
  program are quotients and sums of numbers of days between two timestamps, and
  percentages.
\<close>

definition round_half_even :: "rat \<Rightarrow> int" where
  "round_half_even y =
     (let f = \<lfloor>y\<rfloor>; r = y - of_int f
      in if r < 1 / 2 then f else if 1 / 2 < r then f + 1
         else if even f then f else f + 1)"

function bit_length :: "int \<Rightarrow> nat" where
  "bit_length n = (if n \<le> 0 then 0 else Suc (bit_length (n div 2)))"
  by pat_completeness auto
termination
  by (relation "measure nat") auto

declare bit_length.simps [simp del]

definition expo :: "rat \<Rightarrow> int" where
  "expo y = (if 1 \<le> y then int (bit_length \<lfloor>y\<rfloor>) - 1
             else - int (bit_length (\<lceil>1 / y\<rceil> - 1)))"

definition fl :: "rat \<Rightarrow> rat" where
  "fl x = (if x = 0 then 0
           else let s = 52 - max (expo \<bar>x\<bar>) (- 1022)
                in sgn x * of_int (round_half_even (\<bar>x\<bar> * 2 powi s)) / 2 powi s)"

text \<open>\<^verbatim>\<open>float(n)\<close>, and the operators on two floats.\<close>

definition float_of_int :: "int \<Rightarrow> rat" where
  "float_of_int n = fl (of_int n)"

definition fadd :: "rat \<Rightarrow> rat \<Rightarrow> rat" where
  "fadd x y = fl (x + y)"

definition fsub :: "rat \<Rightarrow> rat \<Rightarrow> rat" where
  "fsub x y = fl (x - y)"

definition fmul :: "rat \<Rightarrow> rat \<Rightarrow> rat" where
  "fmul x y = fl (x * y)"

definition fdiv :: "rat \<Rightarrow> rat \<Rightarrow> rat" where
  "fdiv x y = fl (x / y)"

text \<open>\<^verbatim>\<open>a / b\<close> on two \<^verbatim>\<open>int\<close>s: the quotient is rounded once.\<close>

definition truediv :: "int \<Rightarrow> int \<Rightarrow> rat" where
  "truediv a b = fl (of_int a / of_int b)"

text \<open>\<^verbatim>\<open>round(x, n)\<close> on a float: the decimal with \<open>n\<close> places nearest to the value of
  \<open>x\<close>, ties to the even neighbour, read back as a float.\<close>

definition py_round :: "rat \<Rightarrow> nat \<Rightarrow> rat" where
  "py_round x n = fl (of_int (round_half_even (x * 10 ^ n)) / 10 ^ n)"

text \<open>
  \<^verbatim>\<open>sum(xs)\<close> on a list of floats starts from the \<^verbatim>\<open>int\<close> 0, adds the first element to
  it, and then adds the others from left to right. Up to CPython 3.11 it adds them
  one by one; since CPython 3.12 it carries a compensation term (Neumaier's
  summation) and adds it at the end when it is not zero. The source does not fix the
  interpreter, so the metrics take the variant as a parameter.
\<close>

datatype cpython = Before_3_12 | Since_3_12

fun neumaier :: "rat \<Rightarrow> rat \<Rightarrow> rat list \<Rightarrow> rat \<times> rat" where
  "neumaier f c [] = (f, c)"
| "neumaier f c (x # xs) =
     (let t = fadd f x;
          c' = (if \<bar>x\<bar> \<le> \<bar>f\<bar> then fadd c (fadd (fsub f t) x)
                else fadd c (fadd (fsub x t) f))
      in neumaier t c' xs)"

fun py_sum :: "cpython \<Rightarrow> rat list \<Rightarrow> rat" where
  "py_sum py [] = 0"
| "py_sum Before_3_12 (x # xs) = foldl fadd (fadd (float_of_int 0) x) xs"
| "py_sum Since_3_12 (x # xs) =
     (case neumaier (fadd (float_of_int 0) x) 0 xs of
        (f, c) \<Rightarrow> if c \<noteq> 0 then fadd f c else f)"

section \<open>Metrics\<close>

text \<open>\<^verbatim>\<open>timedelta.total_seconds()\<close> of a difference in microseconds: the number of
  microseconds divided by \<^verbatim>\<open>10**6\<close>, both \<^verbatim>\<open>int\<close>s.\<close>

definition total_seconds :: "int \<Rightarrow> rat" where
  "total_seconds delta = truediv delta 1000000"

text \<open>\<^verbatim>\<open>datetime.fromisoformat(x) if isinstance(x, str) else x\<close>: a timestamp is read
  back; text that is no timestamp makes \<^verbatim>\<open>fromisoformat\<close> raise, and \<^verbatim>\<open>None\<close> makes the
  subtraction raise.\<close>

fun as_datetime :: "val \<Rightarrow> error + int" where
  "as_datetime (VDate t) = Inr t"
| "as_datetime (VStr s) = Inl ValueError"
| "as_datetime VNone = Inl TypeError"

text \<open>The loop that collects \<^verbatim>\<open>completion_times\<close>, the same in both metrics handlers;
  it appends \<^verbatim>\<open>delta.total_seconds() / 86400\<close>.\<close>

fun completion_times :: "doc list \<Rightarrow> error + rat list" where
  "completion_times [] = Inr []"
| "completion_times (task # rest) =
     (if truthy (dict_get task ''completed_at'') \<and> truthy (dict_get task ''created_at'') then
        (case as_datetime (dict_get task ''created_at'') of
           Inl e \<Rightarrow> Inl e
         | Inr created \<Rightarrow>
            (case as_datetime (dict_get task ''completed_at'') of
               Inl e \<Rightarrow> Inl e
             | Inr completed \<Rightarrow>
                (case completion_times rest of
                   Inl e \<Rightarrow> Inl e
                 | Inr elapsed \<Rightarrow>
                     Inr (fdiv (total_seconds (completed - created)) (float_of_int 86400)
                          # elapsed))))
      else completion_times rest)"

text \<open>\<^verbatim>\<open>sum(ts) / len(ts) if ts else None\<close>.\<close>

definition avg_completion_time :: "cpython \<Rightarrow> rat list \<Rightarrow> rat option" where
  "avg_completion_time py ts =
     (if ts \<noteq> [] then Some (fdiv (py_sum py ts) (float_of_int (int (length ts)))) else None)"

text \<open>\<^verbatim>\<open>round(avg, 2) if avg else None\<close>: the test is Python truthiness, under which
  \<^verbatim>\<open>None\<close> and \<^verbatim>\<open>0.0\<close> are both false.\<close>

definition round_if_truthy :: "rat option \<Rightarrow> rat option" where
  "round_if_truthy avg =
     (case avg of None \<Rightarrow> None | Some x \<Rightarrow> if x \<noteq> 0 then Some (py_round x 2) else None)"

record ProjectMetrics =
  total_tasks :: nat
  completed_tasks :: nat
  in_progress_tasks :: nat
  todo_tasks :: nat
  average_completion_time_days :: "rat option"
  completion_rate :: rat

record OverviewMetrics =
  total_projects :: nat
  overview_total_tasks :: nat
  total_users :: nat
  overview_completed_tasks :: nat
  overview_average_completion_time_days :: "rat option"

definition status_is :: "string \<Rightarrow> doc \<Rightarrow> bool" where
  "status_is v t = (dict_get t ''status'' = VStr v)"

text \<open>\<^verbatim>\<open>(completed / total * 100) if total > 0 else 0\<close>: a true division of two
  \<^verbatim>\<open>int\<close>s, then a float multiplication by \<^verbatim>\<open>float(100)\<close>; otherwise the \<^verbatim>\<open>int\<close> 0, which
  \<^verbatim>\<open>round\<close> leaves as it is (\<open>py_round 0 2 = 0\<close>).\<close>

definition get_project_metrics :: "cpython \<Rightarrow> db \<Rightarrow> string \<Rightarrow> error + ProjectMetrics" where
  "get_project_metrics py s project_id =
     (case find_one [(''id'', VStr project_id)] (db_projects s) of
        None \<Rightarrow> Inl (HTTPException 404 ''Project not found'')
      | Some project \<Rightarrow>
          (let tasks = to_list 1000 (find_docs [(''project_id'', VStr project_id)] (db_tasks s));
               total = length tasks;
               completed = length (filter (status_is ''DONE'') tasks);
               in_progress = length (filter (status_is ''IN_PROGRESS'') tasks);
               todo = length (filter (status_is ''TODO'') tasks)
           in case completion_times tasks of
                Inl e \<Rightarrow> Inl e
              | Inr elapsed \<Rightarrow>
                 (let avg = avg_completion_time py elapsed;
                      rate = (if total > 0
                              then fmul (truediv (int completed) (int total)) (float_of_int 100)
                              else 0)
                  in Inr \<lparr>total_tasks = total,
                          completed_tasks = completed,
                          in_progress_tasks = in_progress,
                          todo_tasks = todo,
                          average_completion_time_days = round_if_truthy avg,
                          completion_rate = py_round rate 2\<rparr>)))"

definition get_overview_metrics :: "cpython \<Rightarrow> db \<Rightarrow> error + OverviewMetrics" where
  "get_overview_metrics py s =
     (let projects = count_documents [] (db_projects s);
          tasks = count_documents [] (db_tasks s);
          users = count_documents [] (db_users s);
          completed_tasks_list = to_list 1000 (find_docs [(''status'', VStr ''DONE'')] (db_tasks s))
      in case completion_times completed_tasks_list of
           Inl e \<Rightarrow> Inl e
         | Inr elapsed \<Rightarrow>
             Inr \<lparr>total_projects = projects,
                  overview_total_tasks = tasks,
                  total_users = users,
                  overview_completed_tasks = length completed_tasks_list,
                  overview_average_completion_time_days =
                    round_if_truthy (avg_completion_time py elapsed)\<rparr>)"

section \<open>Notions used in the statements\<close>

text \<open>The guard of the loop body of \<open>completion_times\<close>, and the value the body appends
  for a task whose two timestamps it could read.\<close>

definition has_both_timestamps :: "doc \<Rightarrow> bool" where
  "has_both_timestamps t =
     (truthy (dict_get t ''completed_at'') \<and> truthy (dict_get t ''created_at''))"

definition elapsed_days :: "doc \<Rightarrow> rat" where
  "elapsed_days t =
     (case (dict_get t ''created_at'', dict_get t ''completed_at'') of
        (VDate created, VDate completed) \<Rightarrow>
          fdiv (total_seconds (completed - created)) (float_of_int 86400)
      | _ \<Rightarrow> 0)"

section \<open>Example stores\<close>

definition mk_task :: "string \<Rightarrow> string \<Rightarrow> string \<Rightarrow> int \<Rightarrow> val \<Rightarrow> doc" where
  "mk_task tid pid st created completed =
     [(''id'', VStr tid), (''title'', VStr ''task''), (''description'', VStr ''''),
      (''project_id'', VStr pid), (''assigned_to'', VNone), (''status'', VStr st),
      (''priority'', VStr ''MEDIUM''), (''created_at'', VDate created),
      (''updated_at'', VDate created), (''completed_at'', completed)]"

definition demo_user :: doc where
  "demo_user =
     [(''id'', VStr ''u1''), (''name'', VStr ''Ada''), (''email'', VStr ''ada@example.org''),
      (''avatar_color'', VStr ''#3b82f6''), (''created_at'', VDate 0)]"

definition demo_project :: doc where
  "demo_project =
     [(''id'', VStr ''p1''), (''name'', VStr ''Alpha''), (''description'', VStr ''first''),
      (''owner_id'', VStr ''u1''), (''created_at'', VDate 0), (''updated_at'', VDate 0)]"

definition store_of :: "doc list \<Rightarrow> db" where
  "store_of ts =
     \<lparr>db_users = [demo_user], db_projects = [demo_project], db_tasks = ts, db_comments = []\<rparr>"

text \<open>One day is 86400000000 microseconds.\<close>

definition four_store :: db where
  "four_store = store_of
     [mk_task ''t1'' ''p1'' ''TODO'' 0 VNone,
      mk_task ''t2'' ''p1'' ''IN_PROGRESS'' 0 VNone,
      mk_task ''t3'' ''p1'' ''IN_REVIEW'' 0 VNone,
      mk_task ''t4'' ''p1'' ''DONE'' 0 (VDate 172800000000)]"


text \<open>A task completed in the microsecond of its creation.\<close>

definition instant_store :: db where
  "instant_store =
     store_of [mk_task ''t1'' ''p1'' ''DONE'' 1704067200000000 (VDate 1704067200000000)]"

text \<open>A project of 1001 DONE tasks: a thousand that took one day and, created last, one
  that took 1002 days.\<close>

definition task_name :: "nat \<Rightarrow> string" where
  "task_name i = CHR ''t'' # replicate i CHR ''+''"

definition crowded_tasks :: "doc list" where
  "crowded_tasks =
     map (\<lambda>i. mk_task (task_name i) ''p1'' ''DONE'' 0 (VDate 86400000000)) [0..<1000]
     @ [mk_task (task_name 1000) ''p1'' ''DONE'' 0 (VDate 86572800000000)]"

definition crowded_store :: db where
  "crowded_store = store_of crowded_tasks"




text \<open>Request bodies.\<close>

definition rename_user :: UserUpdate where
  "rename_user = \<lparr>uu_name = Given ''Bob'', uu_email = Absent, uu_avatar_color = Null\<rparr>"

definition rename_project :: ProjectUpdate where
  "rename_project = \<lparr>pu_name = Given ''Beta'', pu_description = Absent\<rparr>"

definition retitle_task :: TaskUpdate where
  "retitle_task =
     \<lparr>tu_title = Given ''renamed'', tu_description = Absent, tu_assigned_to = Null,
      tu_status = Absent, tu_priority = Absent\<rparr>"

definition complete_task :: TaskUpdate where
  "complete_task =
     \<lparr>tu_title = Absent, tu_description = Absent, tu_assigned_to = Absent,
      tu_status = Given DONE, tu_priority = Null\<rparr>"

definition reopen_task :: TaskUpdate where
  "reopen_task =
     \<lparr>tu_title = Given ''again'', tu_description = Absent, tu_assigned_to = Absent,
      tu_status = Given TODO, tu_priority = Absent\<rparr>"


text \<open>Whether a body gives a value for a field.\<close>

fun is_given :: "'a field \<Rightarrow> bool" where
  "is_given (Given x) = True"
| "is_given Absent = False"
| "is_given Null = False"


definition new_task :: TaskCreate where
  "new_task =
     \<lparr>tc_title = ''write report'', tc_description = ''quarterly'', tc_project_id = ''p1'',
      tc_assigned_to = Given ''u1'', tc_priority = Absent\<rparr>"

section \<open>Lemmas on floating point\<close>

lemma bit_length_upper: "n < 2 ^ bit_length n"
proof (induction n rule: bit_length.induct)
  case (1 n)
  show ?case
  proof (cases "n \<le> 0")
    case True
    then show ?thesis by (simp add: bit_length.simps[of n])
  next
    case False
    with 1 have "n div 2 < 2 ^ bit_length (n div 2)" by simp
    then have "n < 2 * 2 ^ bit_length (n div 2)" by linarith
    with False show ?thesis by (simp add: bit_length.simps[of n])
  qed
qed

lemma bit_length_lower: "0 < n \<Longrightarrow> 2 ^ (bit_length n - 1) \<le> n"
proof (induction n rule: bit_length.induct)
  case (1 n)
  show ?case
  proof (cases "n div 2 \<le> 0")
    case True
    with 1(2) have "n = 1" by linarith
    then show ?thesis by (simp add: bit_length.simps[of 1] bit_length.simps[of 0])
  next
    case False
    with 1 have ih: "2 ^ (bit_length (n div 2) - 1) \<le> n div 2" by simp
    from False have p: "0 < bit_length (n div 2)" by (simp add: bit_length.simps[of "n div 2"])
    have "bit_length n = Suc (bit_length (n div 2))" using 1(2) by (simp add: bit_length.simps[of n])
    then have "2 ^ (bit_length n - 1) = (2::int) * 2 ^ (bit_length (n div 2) - 1)"
      using p by (cases "bit_length (n div 2)") simp_all
    with ih show ?thesis by linarith
  qed
qed

lemma expo_le: assumes "0 < y" shows "2 powi (expo y) \<le> y"
proof (cases "1 \<le> y")
  case True
  then have f: "0 < \<lfloor>y\<rfloor>" by simp
  then have b: "0 < bit_length \<lfloor>y\<rfloor>" by (simp add: bit_length.simps[of "\<lfloor>y\<rfloor>"])
  have "expo y = int (bit_length \<lfloor>y\<rfloor> - 1)" using True b by (simp add: expo_def)
  then have "2 powi (expo y) = (2::rat) ^ (bit_length \<lfloor>y\<rfloor> - 1)" by simp
  also have "\<dots> = of_int (2 ^ (bit_length \<lfloor>y\<rfloor> - 1))" by simp
  also have "\<dots> \<le> of_int \<lfloor>y\<rfloor>" using bit_length_lower[OF f] by (simp only: of_int_le_iff)
  also have "\<dots> \<le> y" by simp
  finally show ?thesis .
next
  case False
  define N where "N = \<lceil>1 / y\<rceil>"
  define k where "k = bit_length (N - 1)"
  have "N - 1 < 2 ^ k" unfolding k_def by (rule bit_length_upper)
  then have "N \<le> 2 ^ k" by simp
  then have "(of_int N :: rat) \<le> of_int (2 ^ k)" by (simp only: of_int_le_iff)
  moreover have "1 / y \<le> of_int N" unfolding N_def by (rule le_of_int_ceiling)
  ultimately have "1 / y \<le> of_int (2 ^ k)" by (rule order_trans[rotated])
  then have "1 / y \<le> 2 ^ k" by simp
  then have "1 \<le> 2 ^ k * y" using assms by (simp add: field_simps)
  then have "inverse (2 ^ k) \<le> y" by (simp add: field_simps)
  moreover have "2 powi (expo y) = inverse ((2::rat) ^ k)"
    using False by (simp add: expo_def k_def N_def power_int_minus)
  ultimately show ?thesis by simp
qed

lemma round_half_even_of_int: "round_half_even (of_int k) = k"
  by (simp add: round_half_even_def)




lemma fl_zero: "fl 0 = 0"
  by (simp add: fl_def)

text \<open>Below \<open>2^53\<close> the significand is scaled by a power of two with a natural exponent.\<close>

lemma scale_nat:
  assumes "x \<noteq> 0" and "\<bar>x\<bar> < 2 ^ 53"
  obtains k where "52 - max (expo \<bar>x\<bar>) (- 1022) = int k"
proof -
  have "2 powi (expo \<bar>x\<bar>) \<le> \<bar>x\<bar>" using assms(1) by (intro expo_le) simp
  with assms(2) have "(2::rat) powi (expo \<bar>x\<bar>) < 2 powi 53" by simp
  then have "expo \<bar>x\<bar> < 53" by (rule power_int_le_imp_less_exp[rotated]) simp_all
  then have "0 \<le> 52 - max (expo \<bar>x\<bar>) (- 1022)" by simp
  then show thesis using that[of "nat (52 - max (expo \<bar>x\<bar>) (- 1022))"] by simp
qed

lemma fl_of_int: assumes "\<bar>n\<bar> < 2 ^ 53" shows "fl (of_int n) = of_int n"
proof (cases "n = 0")
  case True
  then show ?thesis by (simp add: fl_def)
next
  case False
  let ?x = "of_int n :: rat"
  have a: "\<bar>?x\<bar> < 2 ^ 53" using assms by (metis of_int_abs of_int_less_iff of_int_numeral of_int_power)
  from False have nz: "?x \<noteq> 0" by simp
  from scale_nat[OF nz a] obtain k where k: "52 - max (expo \<bar>?x\<bar>) (- 1022) = int k" .
  have "\<bar>?x\<bar> * 2 ^ k = of_int (\<bar>n\<bar> * 2 ^ k)" by simp
  then have r: "round_half_even (\<bar>?x\<bar> * 2 ^ k) = \<bar>n\<bar> * 2 ^ k"
    by (simp only: round_half_even_of_int)
  have "fl ?x = sgn ?x * of_int (\<bar>n\<bar> * 2 ^ k) / 2 ^ k"
    using nz by (simp only: fl_def Let_def k power_int_of_nat r) simp
  also have "\<dots> = sgn ?x * \<bar>?x\<bar>" by simp
  also have "\<dots> = ?x" by (simp add: sgn_mult_abs)
  finally show ?thesis .
qed




lemma fl_numeral: "numeral n < (2::int) ^ 53 \<Longrightarrow> fl (numeral n) = numeral n"
  using fl_of_int[of "numeral n"] by simp

lemma fl_one: "fl 1 = 1"
  using fl_of_int[of 1] by simp

lemma fl_quarter: "fl (1 / 4) = 1 / 4"
  by (simp add: fl_def expo_def bit_length.simps round_half_even_def)

lemma round_half_even_numeral: "round_half_even (numeral n) = numeral n"
  using round_half_even_of_int[of "numeral n"] by simp

lemma round_half_even_zero: "round_half_even 0 = 0"
  using round_half_even_of_int[of 0] by simp

lemma fadd_ints: "\<bar>a + b\<bar> < 2 ^ 53 \<Longrightarrow> fadd (of_int a) (of_int b) = of_int (a + b)"
  using fl_of_int[of "a + b"] by (simp add: fadd_def)

lemma fsub_ints: "\<bar>a - b\<bar> < 2 ^ 53 \<Longrightarrow> fsub (of_int a) (of_int b) = of_int (a - b)"
  using fl_of_int[of "a - b"] by (simp add: fsub_def)

lemma foldl_fadd_ints:
  "\<forall>x\<in>set ns. 0 \<le> x \<Longrightarrow> 0 \<le> a \<Longrightarrow> a + sum_list ns < 2 ^ 53 \<Longrightarrow>
   foldl fadd (of_int a) (map of_int ns) = of_int (a + sum_list ns)"
proof (induction ns arbitrary: a)
  case Nil
  then show ?case by simp
next
  case (Cons x ns)
  from Cons.prems have x: "0 \<le> x" and ns: "\<forall>y\<in>set ns. 0 \<le> y" by simp_all
  from ns have s: "0 \<le> sum_list ns" by (simp add: sum_list_nonneg)
  from Cons.prems x s have "\<bar>a + x\<bar> < 2 ^ 53" by simp
  then have f: "fadd (of_int a) (of_int x) = of_int (a + x)" by (rule fadd_ints)
  have "foldl fadd (of_int (a + x)) (map of_int ns) = of_int (a + x + sum_list ns)"
    using Cons.prems x by (intro Cons.IH ns) simp_all
  then show ?case by (simp add: f add.assoc)
qed

lemma neumaier_ints:
  "\<forall>x\<in>set ns. 0 \<le> x \<Longrightarrow> 0 \<le> a \<Longrightarrow> a + sum_list ns < 2 ^ 53 \<Longrightarrow>
   neumaier (of_int a) 0 (map of_int ns) = (of_int (a + sum_list ns), 0)"
proof (induction ns arbitrary: a)
  case Nil
  then show ?case by simp
next
  case (Cons x ns)
  from Cons.prems have x: "0 \<le> x" and ns: "\<forall>y\<in>set ns. 0 \<le> y" by simp_all
  from ns have s: "0 \<le> sum_list ns" by (simp add: sum_list_nonneg)
  from Cons.prems x s have b: "a + x < 2 ^ 53" by simp
  with x Cons.prems(2) have "\<bar>a + x\<bar> < 2 ^ 53" by simp
  then have t: "fadd (of_int a) (of_int x) = of_int (a + x)" by (rule fadd_ints)
  have "\<bar>a - (a + x)\<bar> < 2 ^ 53" using b x Cons.prems(2) by simp
  then have d1: "fsub (of_int a) (of_int (a + x)) = of_int (a - (a + x))" by (rule fsub_ints)
  have "\<bar>x - (a + x)\<bar> < 2 ^ 53" using b x Cons.prems(2) by simp
  then have d2: "fsub (of_int x) (of_int (a + x)) = of_int (x - (a + x))" by (rule fsub_ints)
  have z1: "fadd (of_int (a - (a + x))) (of_int x) = of_int 0"
    using fadd_ints[of "a - (a + x)" x] by simp
  have z2: "fadd (of_int (x - (a + x))) (of_int a) = of_int 0"
    using fadd_ints[of "x - (a + x)" a] by simp
  have z: "fadd 0 0 = 0" by (simp add: fadd_def fl_zero)
  have step: "neumaier (of_int a) 0 (map of_int (x # ns))
                = neumaier (of_int (a + x)) 0 (map of_int ns)"
    by (simp only: list.map neumaier.simps Let_def t d1 d2 z1 z2 of_int_0 z if_cancel)
  have "neumaier (of_int (a + x)) 0 (map of_int ns) = (of_int (a + x + sum_list ns), 0)"
    using Cons.prems x by (intro Cons.IH ns) simp_all
  with step show ?case by (simp add: add.assoc)
qed

lemma py_sum_ints:
  assumes "\<forall>x\<in>set ns. 0 \<le> x" and "sum_list ns < 2 ^ 53"
  shows "py_sum py (map of_int ns) = of_int (sum_list ns)"
proof (cases ns)
  case Nil
  then show ?thesis by simp
next
  case (Cons x xs)
  from assms Cons have x: "0 \<le> x" and xs: "\<forall>y\<in>set xs. 0 \<le> y"
    and b: "x + sum_list xs < 2 ^ 53" by simp_all
  from xs have "0 \<le> sum_list xs" by (simp add: sum_list_nonneg)
  with x b have "\<bar>0 + x\<bar> < 2 ^ 53" by simp
  then have f: "fadd (float_of_int 0) (of_int x) = of_int x"
    using fadd_ints[of 0 x] by (simp add: float_of_int_def fl_zero)
  show ?thesis
  proof (cases py)
    case Before_3_12
    then show ?thesis using foldl_fadd_ints[OF xs x b] by (simp add: Cons f)
  next
    case Since_3_12
    then show ?thesis using neumaier_ints[OF xs x b] by (simp add: Cons f)
  qed
qed

lemma py_sum_single: "py_sum py [x] = fl x"
  by (cases py) (simp_all add: fadd_def float_of_int_def fl_zero)





text \<open>Some values, as Python computes them: one completed task of five is 20 percent;
  23 of 160 are reported as 14.37 percent (the float product lies below 14.375); a task
  completed after 432 seconds took 0.01 days (the float quotient lies above 0.005), and
  so did one completed after 1296 seconds (the float quotient lies below 0.015).\<close>

lemma one_of_five: "fl (fl (1 / 5) * 100) = 20"
  by code_simp

lemma rate_23_of_160: "py_round (fmul (truediv 23 160) (float_of_int 100)) 2 = fl (1437 / 100)"
  by code_simp

lemma days_of_432_seconds:
  "py_round (fdiv (truediv 432000000 1000000) (float_of_int 86400)) 2 = fl (1 / 100)"
  by code_simp

lemma days_of_1296_seconds:
  "py_round (fdiv (truediv 1296000000 1000000) (float_of_int 86400)) 2 = fl (1 / 100)"
  by code_simp

section \<open>Lemmas on the metrics\<close>

lemma completion_times_Inr:
  "completion_times ts = Inr cts \<Longrightarrow> cts = map elapsed_days (filter has_both_timestamps ts)"
proof (induction ts arbitrary: cts)
  case Nil
  then show ?case by simp
next
  case (Cons t ts)
  show ?case
  proof (cases "has_both_timestamps t")
    case False
    with Cons.prems have "completion_times ts = Inr cts"
      by (auto simp: has_both_timestamps_def split: if_splits)
    from Cons.IH[OF this] False show ?thesis by simp
  next
    case True
    with Cons.prems obtain c e r where
      c: "dict_get t ''created_at'' = VDate c" and e: "dict_get t ''completed_at'' = VDate e"
      and r: "completion_times ts = Inr r"
      and cts: "cts = fdiv (total_seconds (e - c)) (float_of_int 86400) # r"
      by (cases "dict_get t ''created_at''"; cases "dict_get t ''completed_at''")
         (auto simp: has_both_timestamps_def split: sum.splits)
    from Cons.IH[OF r] c e cts True show ?thesis
      by (simp add: elapsed_days_def)
  qed
qed


lemma get_project_metrics_InrD:
  assumes "get_project_metrics py s p = Inr m"
    and "tasks = to_list 1000 (find_docs [(''project_id'', VStr p)] (db_tasks s))"
  shows "find_one [(''id'', VStr p)] (db_projects s) \<noteq> None"
    and "total_tasks m = length tasks"
    and "completed_tasks m = length (filter (status_is ''DONE'') tasks)"
    and "in_progress_tasks m = length (filter (status_is ''IN_PROGRESS'') tasks)"
    and "todo_tasks m = length (filter (status_is ''TODO'') tasks)"
    and "\<exists>cts. completion_times tasks = Inr cts
           \<and> average_completion_time_days m = round_if_truthy (avg_completion_time py cts)"
    and "completion_rate m =
           py_round (if 0 < length tasks
                     then fmul (truediv (int (length (filter (status_is ''DONE'') tasks)))
                                        (int (length tasks)))
                               (float_of_int 100)
                     else 0) 2"
  using assms
  by (auto simp: get_project_metrics_def Let_def split: option.splits sum.splits)

lemma get_overview_metrics_InrD:
  assumes "get_overview_metrics py s = Inr om"
    and "done_tasks = to_list 1000 (find_docs [(''status'', VStr ''DONE'')] (db_tasks s))"
  shows "overview_completed_tasks om = length done_tasks"
    and "overview_total_tasks om = length (db_tasks s)"
    and "\<exists>cts. completion_times done_tasks = Inr cts
           \<and> overview_average_completion_time_days om
               = round_if_truthy (avg_completion_time py cts)"
  using assms
  by (auto simp: get_overview_metrics_def Let_def count_documents_def find_docs_def matches_def
      split: sum.splits)

lemma matches_single: "matches [(k, v)] d = (map_of d k = Some v)"
  by (simp add: matches_def)

lemma in_to_list: "t \<in> set (to_list n xs) \<Longrightarrow> t \<in> set xs"
  by (auto simp: to_list_def dest: in_set_takeD)

lemma count_all: "count_documents [] coll = length coll"
  by (simp add: count_documents_def find_docs_def matches_def)

lemma matches_project_mk_task: "matches [(''project_id'', VStr p)] (mk_task a p st c e)"
  by (simp add: matches_def mk_task_def)

lemma matches_status_mk_task: "matches [(''status'', VStr st)] (mk_task a p st c e)"
  by (simp add: matches_def mk_task_def)

lemma crowded_project: "find_docs [(''project_id'', VStr ''p1'')] crowded_tasks = crowded_tasks"
  by (simp add: find_docs_def crowded_tasks_def matches_project_mk_task)

lemma crowded_done: "find_docs [(''status'', VStr ''DONE'')] crowded_tasks = crowded_tasks"
  by (simp add: find_docs_def crowded_tasks_def matches_status_mk_task)

lemma crowded_length: "length crowded_tasks = 1001"
  by (simp add: crowded_tasks_def)

lemma crowded_loaded: "to_list 1000 crowded_tasks =
   map (\<lambda>i. mk_task (task_name i) ''p1'' ''DONE'' 0 (VDate 86400000000)) [0..<1000]"
  by (simp add: to_list_def crowded_tasks_def)



lemma completion_times_map_mk_task:
  "completion_times (map (\<lambda>i. mk_task (f i) p st c (VDate e)) xs)
     = Inr (map (\<lambda>i. fdiv (total_seconds (e - c)) (float_of_int 86400)) xs)"
  by (induction xs) (simp_all add: mk_task_def dict_get_def)


lemma status_is_mk_task: "status_is v (mk_task a p st c e) = (st = v)"
  by (simp add: status_is_def mk_task_def dict_get_def)

lemma elapsed_days_mk_task:
  "elapsed_days (mk_task a p st c (VDate e)) = fdiv (total_seconds (e - c)) (float_of_int 86400)"
  by (simp add: elapsed_days_def mk_task_def dict_get_def)


lemma loaded_le: "length (to_list 1000 xs) \<le> 1000"
  by (simp add: to_list_def)

lemmas float_defs = total_seconds_def truediv_def fdiv_def fmul_def fadd_def fsub_def
  float_of_int_def py_round_def

lemmas float_facts = fl_zero fl_one fl_numeral fl_quarter round_half_even_numeral
  round_half_even_zero py_sum_single

lemmas eval_defs = get_project_metrics_def get_overview_metrics_def store_of_def mk_task_def
  demo_project_def demo_user_def find_one_def matches_def find_docs_def to_list_def status_is_def
  dict_get_def avg_completion_time_def round_if_truthy_def count_documents_def
  float_defs float_facts

text \<open>One day and 1002 days, in microseconds.\<close>

lemma one_day: "fdiv (total_seconds 86400000000) (float_of_int 86400) = 1"
  by (simp add: float_defs float_facts)

lemma many_days: "fdiv (total_seconds 86572800000000) (float_of_int 86400) = 1002"
  by (simp add: float_defs float_facts)

text \<open>The sum of a thousand ones, and of a thousand ones and 1002.\<close>

lemma py_sum_ones: "py_sum py (map (\<lambda>i. 1) [0..<1000]) = 1000"
proof -
  have "map (\<lambda>i. (1::rat)) [0..<1000] = map of_int (replicate 1000 1)"
    by (simp add: map_replicate_const)
  moreover have "py_sum py (map of_int (replicate 1000 1)) = of_int (sum_list (replicate 1000 1))"
    by (rule py_sum_ints) (simp_all add: sum_list_replicate)
  ultimately show ?thesis by (simp add: sum_list_replicate)
qed

lemma py_sum_ones_and: "py_sum py (map (\<lambda>i. 1) [0..<1000] @ [1002]) = 2002"
proof -
  have "map (\<lambda>i. (1::rat)) [0..<1000] @ [1002] = map of_int (replicate 1000 1 @ [1002])"
    by (simp add: map_replicate_const)
  moreover have "py_sum py (map of_int (replicate 1000 1 @ [1002]))
                   = of_int (sum_list (replicate 1000 1 @ [1002]))"
    by (rule py_sum_ints) (auto simp: sum_list_replicate)
  ultimately show ?thesis by (simp add: sum_list_replicate)
qed

text \<open>Among the tasks that the handlers load, presence of the timestamps decides for the
  project and the status decides for the overview: a loaded task of the project that has
  both timestamps and is not DONE contributes its elapsed days to the average of the
  project, and the overview does not load it.\<close>

lemma presence_versus_status_loaded:
  assumes pm: "get_project_metrics py s p = Inr m"
    and om: "get_overview_metrics py s = Inr om"
    and pt: "project_tasks = to_list 1000 (find_docs [(''project_id'', VStr p)] (db_tasks s))"
    and dt: "done_tasks = to_list 1000 (find_docs [(''status'', VStr ''DONE'')] (db_tasks s))"
    and t: "t \<in> set project_tasks"
    and c: "dict_get t ''created_at'' = VDate c"
    and e: "dict_get t ''completed_at'' = VDate e"
    and st: "dict_get t ''status'' \<noteq> VStr ''DONE''"
  shows "average_completion_time_days m =
           round_if_truthy (avg_completion_time py
             (map elapsed_days (filter has_both_timestamps project_tasks)))"
    and "t \<in> set (filter has_both_timestamps project_tasks)"
    and "elapsed_days t = fdiv (total_seconds (e - c)) (float_of_int 86400)"
    and "overview_average_completion_time_days om =
           round_if_truthy (avg_completion_time py
             (map elapsed_days (filter has_both_timestamps done_tasks)))"
    and "t \<notin> set done_tasks"
proof -
  from get_project_metrics_InrD(6)[OF pm pt] obtain cts where
    "completion_times project_tasks = Inr cts"
    "average_completion_time_days m = round_if_truthy (avg_completion_time py cts)" by blast
  then show "average_completion_time_days m =
           round_if_truthy (avg_completion_time py
             (map elapsed_days (filter has_both_timestamps project_tasks)))"
    using completion_times_Inr by blast
  from get_overview_metrics_InrD(3)[OF om dt] obtain ots where
    "completion_times done_tasks = Inr ots"
    "overview_average_completion_time_days om = round_if_truthy (avg_completion_time py ots)"
    by blast
  then show "overview_average_completion_time_days om =
           round_if_truthy (avg_completion_time py
             (map elapsed_days (filter has_both_timestamps done_tasks)))"
    using completion_times_Inr by blast
  have "has_both_timestamps t" using c e by (simp add: has_both_timestamps_def)
  with t show "t \<in> set (filter has_both_timestamps project_tasks)" by simp
  show "elapsed_days t = fdiv (total_seconds (e - c)) (float_of_int 86400)"
    using c e by (simp add: elapsed_days_def)
  show "t \<notin> set done_tasks"
  proof
    assume "t \<in> set done_tasks"
    then have "t \<in> set (find_docs [(''status'', VStr ''DONE'')] (db_tasks s))"
      unfolding dt by (rule in_to_list)
    then have "map_of t ''status'' = Some (VStr ''DONE'')"
      by (simp add: find_docs_def matches_single)
    then have "dict_get t ''status'' = VStr ''DONE''" by (simp add: dict_get_def)
    with st show False by simp
  qed
qed

section \<open>Lemmas on dictionaries and the store\<close>

lemma map_of_dict_update:
  "distinct (map fst u) \<Longrightarrow> map_of (dict_update d u) = map_of d ++ map_of u"
proof (induction u arbitrary: d)
  case Nil
  then show ?case by (simp add: dict_update_def)
next
  case (Cons p u)
  obtain a b where p: "p = (a, b)" by (cases p)
  from Cons.prems p have a: "map_of u a = None" and du: "distinct (map fst u)"
    by (auto simp: map_of_eq_None_iff)
  have "map_of (dict_update d (p # u)) = map_of (dict_update (AList.update a b d) u)"
    by (simp add: dict_update_def p)
  also have "\<dots> = map_of (AList.update a b d) ++ map_of u"
    by (rule Cons.IH[OF du])
  also have "\<dots> = map_of d ++ map_of (p # u)"
    using a by (auto simp: p AList.update_conv' map_add_def fun_eq_iff split: option.splits)
  finally show ?case .
qed

lemma map_of_non_null:
  "distinct (map fst m) \<Longrightarrow>
   map_of (non_null m) k =
     (case map_of m k of None \<Rightarrow> None | Some v \<Rightarrow> if v = VNone then None else Some v)"
proof (induction m)
  case Nil
  then show ?case by (simp add: non_null_def)
next
  case (Cons p m)
  obtain a b where p: "p = (a, b)" by (cases p)
  from Cons.prems p have "a \<notin> fst ` set m" by auto
  then have "a \<notin> fst ` set (non_null m)" by (auto simp: non_null_def)
  then have n: "map_of (non_null m) a = None" by (simp add: map_of_eq_None_iff)
  from Cons.prems have ih: "map_of (non_null m) k =
     (case map_of m k of None \<Rightarrow> None | Some v \<Rightarrow> if v = VNone then None else Some v)"
    by (intro Cons.IH) simp
  from Cons.prems p have m: "map_of m a = None" by (auto simp: map_of_eq_None_iff)
  have nn: "non_null ((a, b) # m) = (if b \<noteq> VNone then (a, b) # non_null m else non_null m)"
    by (simp add: non_null_def)
  show ?case using ih n m by (simp add: nn p)
qed

lemma distinct_non_null: "distinct (map fst m) \<Longrightarrow> distinct (map fst (non_null m))"
  by (simp add: non_null_def distinct_map_filter)

lemma keys_non_null: "fst ` set (non_null m) \<subseteq> fst ` set m"
  by (auto simp: non_null_def)

lemma matches_id_dict_update:
  assumes "distinct (map fst u)" and "''id'' \<notin> fst ` set u"
  shows "matches [(''id'', v)] (dict_update d u) = matches [(''id'', v)] d"
proof -
  from assms(2) have "map_of u ''id'' = None" by (simp add: map_of_eq_None_iff)
  then show ?thesis
    by (simp add: matches_single map_of_dict_update[OF assms(1)] map_add_def)
qed

lemma find_one_update_one:
  assumes "\<And>d. matches q (dict_update d u) = matches q d"
  shows "find_one q (update_one q u coll) = map_option (\<lambda>d. dict_update d u) (find_one q coll)"
  using assms by (induction coll) (simp_all add: find_one_def)

section \<open>Claims on the metrics\<close>

text \<open>
  C1 (code defect). The claim: in both metrics handlers \<open>average_completion_time_days\<close> is
  the mean of the elapsed days of the tasks that have both timestamps, rounded to two
  decimals, and it is null if and only if there is no such task. The handlers end with
  \<^verbatim>\<open>round(avg_completion_time, 2) if avg_completion_time else None\<close>, which tests the
  mean for truthiness, so a mean of \<open>0.0\<close> is reported as null although the list is not
  empty. For the store \<open>instant_store\<close> (one DONE task whose \<^verbatim>\<open>completed_at\<close> equals its
  \<^verbatim>\<open>created_at\<close>) both handlers collect the one elapsed value \<open>0\<close> and both return null.
\<close>

theorem C1_zero_mean_reported_null:
  "completion_times
     (to_list 1000 (find_docs [(''project_id'', VStr ''p1'')] (db_tasks instant_store)))
     = Inr [0]
   \<and> get_project_metrics py instant_store ''p1'' =
     Inr \<lparr>total_tasks = 1, completed_tasks = 1, in_progress_tasks = 0, todo_tasks = 0,
          average_completion_time_days = None, completion_rate = 100\<rparr>
   \<and> completion_times
       (to_list 1000 (find_docs [(''status'', VStr ''DONE'')] (db_tasks instant_store)))
     = Inr [0]
   \<and> get_overview_metrics py instant_store =
     Inr \<lparr>total_projects = 1, overview_total_tasks = 1, total_users = 1,
          overview_completed_tasks = 1, overview_average_completion_time_days = None\<rparr>"
  by (simp add: instant_store_def eval_defs)






text \<open>
  C3 (code defect). The claim: both metrics are computed over every task of the relevant
  set, for a collection of any size. Both handlers read their tasks with
  \<^verbatim>\<open>.to_list(1000)\<close>, under the comments \<^verbatim>\<open># Get all tasks for this project\<close> and
  \<^verbatim>\<open># Get all completed tasks\<close>, so only the first 1000 matches are aggregated. In
  \<open>crowded_store\<close> the project has 1001 DONE tasks with a mean of 2 days; the project
  metrics report 1000 tasks and a mean of 1 day, and the overview reports 1001 tasks in
  total, 1000 completed ones and a mean of 1 day.
\<close>

theorem C3_only_first_1000_loaded:
  "length (find_docs [(''project_id'', VStr ''p1'')] (db_tasks crowded_store)) = 1001
   \<and> avg_completion_time py
       (map elapsed_days (find_docs [(''project_id'', VStr ''p1'')] (db_tasks crowded_store)))
     = Some 2
   \<and> get_project_metrics py crowded_store ''p1'' =
     Inr \<lparr>total_tasks = 1000, completed_tasks = 1000, in_progress_tasks = 0, todo_tasks = 0,
          average_completion_time_days = Some 1, completion_rate = 100\<rparr>
   \<and> length (find_docs [(''status'', VStr ''DONE'')] (db_tasks crowded_store)) = 1001
   \<and> get_overview_metrics py crowded_store =
     Inr \<lparr>total_projects = 1, overview_total_tasks = 1001, total_users = 1,
          overview_completed_tasks = 1000, overview_average_completion_time_days = Some 1\<rparr>"
proof -
  have tasks: "db_tasks crowded_store = crowded_tasks"
    by (simp add: crowded_store_def store_of_def)
  have proj: "find_one [(''id'', VStr ''p1'')] (db_projects crowded_store) = Some demo_project"
    by (simp add: crowded_store_def store_of_def find_one_def matches_def demo_project_def)
  have n: "length (find_docs [(''project_id'', VStr ''p1'')] (db_tasks crowded_store)) = 1001"
    by (simp add: tasks crowded_project crowded_length)
  have n': "length (find_docs [(''status'', VStr ''DONE'')] (db_tasks crowded_store)) = 1001"
    by (simp add: tasks crowded_done crowded_length)
  have all_days: "map elapsed_days crowded_tasks = map (\<lambda>i. 1) [0..<1000] @ [1002]"
    by (simp add: crowded_tasks_def elapsed_days_mk_task o_def one_day many_days)
  have m2: "fdiv 2002 (float_of_int 1001) = 2" by (simp add: float_defs float_facts)
  have m1: "fdiv 1000 (float_of_int 1000) = 1" by (simp add: float_defs float_facts)
  have full: "avg_completion_time py
       (map elapsed_days (find_docs [(''project_id'', VStr ''p1'')] (db_tasks crowded_store)))
     = Some 2"
    by (simp add: tasks crowded_project all_days avg_completion_time_def py_sum_ones_and m2)
  have r1: "py_round 1 2 = 1" by (simp add: float_defs float_facts)
  have r100: "py_round (fmul (truediv 1000 1000) (float_of_int 100)) 2 = 100"
    by (simp add: float_defs float_facts)
  have pm: "get_project_metrics py crowded_store ''p1'' =
     Inr \<lparr>total_tasks = 1000, completed_tasks = 1000, in_progress_tasks = 0, todo_tasks = 0,
          average_completion_time_days = Some 1, completion_rate = 100\<rparr>"
    by (simp add: get_project_metrics_def proj tasks crowded_project crowded_loaded
        completion_times_map_mk_task status_is_mk_task o_def avg_completion_time_def
        one_day py_sum_ones m1 round_if_truthy_def r1 r100)
  have om: "get_overview_metrics py crowded_store =
     Inr \<lparr>total_projects = 1, overview_total_tasks = 1001, total_users = 1,
          overview_completed_tasks = 1000, overview_average_completion_time_days = Some 1\<rparr>"
    by (simp add: get_overview_metrics_def tasks crowded_done crowded_loaded
        completion_times_map_mk_task avg_completion_time_def one_day py_sum_ones m1
        round_if_truthy_def r1 count_all crowded_length)
       (simp add: crowded_store_def store_of_def)
  from n n' full pm om show ?thesis by simp
qed


section \<open>Claims on the update and create handlers\<close>

text \<open>
  C9. An update of a user, a project or a task (by the general update or by the status
  operation) whose id matches no stored document raises the 404 exception and leaves
  the store as it was.
\<close>

theorem C9_update_missing_id:
  "(find_one [(''id'', VStr user_id)] (db_users s) = None \<longrightarrow>
      update_user s user_id user_data = (Inl (HTTPException 404 ''User not found''), s))
   \<and> (find_one [(''id'', VStr project_id)] (db_projects s) = None \<longrightarrow>
      update_project s project_id t_updated project_data
        = (Inl (HTTPException 404 ''Project not found''), s))
   \<and> (find_one [(''id'', VStr task_id)] (db_tasks s) = None \<longrightarrow>
      update_task s task_id t_updated t_completed task_data
        = (Inl (HTTPException 404 ''Task not found''), s)
      \<and> update_task_status s task_id t_updated t_completed status
        = (Inl (HTTPException 404 ''Task not found''), s))"
  by (simp add: update_user_def update_project_def update_task_def update_task_status_def)

text \<open>Witness for C9: ids that \<open>four_store\<close> does not hold.\<close>

theorem C9_update_missing_id_witness:
  "find_one [(''id'', VStr ''u9'')] (db_users four_store) = None
   \<and> update_user four_store ''u9'' rename_user
       = (Inl (HTTPException 404 ''User not found''), four_store)
   \<and> find_one [(''id'', VStr ''p9'')] (db_projects four_store) = None
   \<and> update_project four_store ''p9'' 5 rename_project
       = (Inl (HTTPException 404 ''Project not found''), four_store)
   \<and> find_one [(''id'', VStr ''t9'')] (db_tasks four_store) = None
   \<and> update_task four_store ''t9'' 5 6 retitle_task
       = (Inl (HTTPException 404 ''Task not found''), four_store)
   \<and> update_task_status four_store ''t9'' 5 6 DONE
       = (Inl (HTTPException 404 ''Task not found''), four_store)"
proof -
  have u: "find_one [(''id'', VStr ''u9'')] (db_users four_store) = None"
    by (simp add: four_store_def store_of_def find_one_def matches_def demo_user_def)
  have p: "find_one [(''id'', VStr ''p9'')] (db_projects four_store) = None"
    by (simp add: four_store_def store_of_def find_one_def matches_def demo_project_def)
  have t: "find_one [(''id'', VStr ''t9'')] (db_tasks four_store) = None"
    by (simp add: four_store_def store_of_def find_one_def matches_def mk_task_def)
  from C9_update_missing_id[where s = four_store and user_id = "''u9''"
      and user_data = rename_user and project_id = "''p9''" and t_updated = 5
      and project_data = rename_project and task_id = "''t9''" and t_completed = 6
      and task_data = retitle_task and status = DONE] u p t
  show ?thesis by simp
qed

lemma TaskStatus_value_DONE: "(TaskStatus_value st = ''DONE'') = (st = DONE)"
  by (cases st) simp_all

lemma distinct_TaskUpdate_dump: "distinct (map fst (TaskUpdate_model_dump m))"
  by (simp add: TaskUpdate_model_dump_def)

lemma keys_TaskUpdate_dump:
  "fst ` set (TaskUpdate_model_dump m) = {''title'', ''description'', ''assigned_to'', ''status'', ''priority''}"
  by (auto simp: TaskUpdate_model_dump_def)

lemma stored_after_update:
  assumes "find_one [(''id'', v)] coll = Some old"
    and "distinct (map fst u)" and "''id'' \<notin> fst ` set u"
  shows "find_one [(''id'', v)] (update_one [(''id'', v)] u coll) = Some (dict_update old u)"
  using assms find_one_update_one[of "[(''id'', v)]" u coll] matches_id_dict_update[of u v]
  by simp

lemma update_task_status_found:
  assumes f: "find_one [(''id'', VStr task_id)] (db_tasks s) = Some old"
  shows "update_task_status s task_id tu tc st =
     (Inr (dict_update old
        [(''status'', VStr (TaskStatus_value st)), (''updated_at'', VDate tu),
         (''completed_at'', if st = DONE then VDate tc else VNone)]),
      s\<lparr>db_tasks := update_one [(''id'', VStr task_id)]
        [(''status'', VStr (TaskStatus_value st)), (''updated_at'', VDate tu),
         (''completed_at'', if st = DONE then VDate tc else VNone)] (db_tasks s)\<rparr>)"
  using f by (simp add: update_task_status_def Let_def)

text \<open>The dictionary that \<open>update_task\<close> writes when the body gives some value.\<close>

lemma update_task_found:
  assumes f: "find_one [(''id'', VStr task_id)] (db_tasks s) = Some old"
    and ne: "non_null (TaskUpdate_model_dump body) \<noteq> []"
  obtains ud where
    "update_task s task_id tu tc body =
       (Inr (dict_update old ud),
        s\<lparr>db_tasks := update_one [(''id'', VStr task_id)] ud (db_tasks s)\<rparr>)"
    and "distinct (map fst ud)" and "''id'' \<notin> fst ` set ud"
    and "\<And>k. k \<noteq> ''updated_at'' \<Longrightarrow> k \<noteq> ''completed_at'' \<Longrightarrow>
           map_of ud k = map_of (non_null (TaskUpdate_model_dump body)) k"
    and "map_of ud ''updated_at'' = Some (VDate tu)"
    and "map_of ud ''completed_at'' =
           (case map_of (non_null (TaskUpdate_model_dump body)) ''status'' of
              None \<Rightarrow> None
            | Some v \<Rightarrow> Some (if v = VStr ''DONE'' then VDate tc else VNone))"
proof -
  define nn where "nn = non_null (TaskUpdate_model_dump body)"
  define ud1 where "ud1 = AList.update ''updated_at'' (VDate tu) nn"
  define ud where "ud =
     (if dict_in ''status'' ud1 \<and> dict_get ud1 ''status'' = VStr (TaskStatus_value DONE)
      then AList.update ''completed_at'' (VDate tc) ud1
      else if dict_in ''status'' ud1 \<and> dict_get ud1 ''status'' \<noteq> VStr (TaskStatus_value DONE)
      then AList.update ''completed_at'' VNone ud1
      else ud1)"
  have dnn: "distinct (map fst nn)"
    unfolding nn_def by (rule distinct_non_null[OF distinct_TaskUpdate_dump])
  have knn: "fst ` set nn \<subseteq> {''title'', ''description'', ''assigned_to'', ''status'', ''priority''}"
    unfolding nn_def using keys_non_null[of "TaskUpdate_model_dump body"] keys_TaskUpdate_dump by simp
  have d1: "distinct (map fst ud1)" unfolding ud1_def by (rule distinct_update[OF dnn])
  have k1: "fst ` set ud1 = {''updated_at''} \<union> fst ` set nn" unfolding ud1_def by (rule dom_update)
  have m1: "map_of ud1 = (map_of nn)(''updated_at'' \<mapsto> VDate tu)"
    unfolding ud1_def by (rule update_conv')
  have nc: "map_of nn ''completed_at'' = None" "map_of nn ''updated_at'' = None"
    using knn by (auto simp: map_of_eq_None_iff)
  have 1: "update_task s task_id tu tc body =
       (Inr (dict_update old ud),
        s\<lparr>db_tasks := update_one [(''id'', VStr task_id)] ud (db_tasks s)\<rparr>)"
    using f ne by (simp add: update_task_def Let_def nn_def[symmetric] ud1_def[symmetric] ud_def)
  have 2: "distinct (map fst ud)" unfolding ud_def using d1 by (simp add: distinct_update)
  have idnn: "''id'' \<notin> fst ` set nn"
  proof
    assume "''id'' \<in> fst ` set nn"
    with knn have "''id'' \<in> {''title'', ''description'', ''assigned_to'', ''status'', ''priority''}"
      by (rule subsetD)
    then show False by simp
  qed
  have id1: "''id'' \<notin> fst ` set ud1" using idnn by (simp add: k1)
  have 3: "''id'' \<notin> fst ` set ud"
    unfolding ud_def using id1 by (simp add: dom_update)
  have 4: "map_of ud k = map_of nn k" if "k \<noteq> ''updated_at''" "k \<noteq> ''completed_at''" for k
    unfolding ud_def using that by (simp add: update_conv' m1)
  have 5: "map_of ud ''updated_at'' = Some (VDate tu)"
    unfolding ud_def by (simp add: update_conv' m1)
  have 6: "map_of ud ''completed_at'' =
           (case map_of nn ''status'' of
              None \<Rightarrow> None
            | Some v \<Rightarrow> Some (if v = VStr ''DONE'' then VDate tc else VNone))"
    unfolding ud_def using nc
    by (auto simp: update_conv' m1 dict_in_def dict_get_def split: option.splits)
  from that[OF 1 2 3 _ 5] 4 6 show thesis unfolding nn_def by blast
qed

lemma non_null_status_given:
  assumes "tu_status body = Given st"
  shows "map_of (non_null (TaskUpdate_model_dump body)) ''status'' = Some (VStr (TaskStatus_value st))"
    and "non_null (TaskUpdate_model_dump body) \<noteq> []"
proof -
  show a: "map_of (non_null (TaskUpdate_model_dump body)) ''status'' = Some (VStr (TaskStatus_value st))"
    using assms
    by (simp add: map_of_non_null[OF distinct_TaskUpdate_dump]) (simp add: TaskUpdate_model_dump_def)
  then show "non_null (TaskUpdate_model_dump body) \<noteq> []" by auto
qed

lemma update_task_status_effect:
  assumes f: "find_one [(''id'', VStr task_id)] (db_tasks s) = Some old"
  shows "\<exists>new s'. update_task_status s task_id tu tc st = (Inr new, s')
            \<and> find_one [(''id'', VStr task_id)] (db_tasks s') = Some new
            \<and> map_of new ''status'' = Some (VStr (TaskStatus_value st))
            \<and> map_of new ''updated_at'' = Some (VDate tu)
            \<and> map_of new ''completed_at'' = Some (if st = DONE then VDate tc else VNone)"
proof -
  define ud where "ud = [(''status'', VStr (TaskStatus_value st)), (''updated_at'', VDate tu),
         (''completed_at'', if st = DONE then VDate tc else VNone)]"
  have d: "distinct (map fst ud)" and i: "''id'' \<notin> fst ` set ud" by (simp_all add: ud_def)
  have a: "update_task_status s task_id tu tc st =
     (Inr (dict_update old ud),
      s\<lparr>db_tasks := update_one [(''id'', VStr task_id)] ud (db_tasks s)\<rparr>)"
    unfolding ud_def by (rule update_task_status_found[OF f])
  have b: "find_one [(''id'', VStr task_id)]
             (db_tasks (s\<lparr>db_tasks := update_one [(''id'', VStr task_id)] ud (db_tasks s)\<rparr>))
           = Some (dict_update old ud)"
    using stored_after_update[OF f d i] by simp
  have m: "map_of (dict_update old ud) = map_of old ++ map_of ud"
    by (rule map_of_dict_update[OF d])
  have c1: "map_of (dict_update old ud) ''status'' = Some (VStr (TaskStatus_value st))"
    unfolding m by (simp add: ud_def)
  have c2: "map_of (dict_update old ud) ''updated_at'' = Some (VDate tu)"
    unfolding m by (simp add: ud_def)
  have c3: "map_of (dict_update old ud) ''completed_at''
              = Some (if st = DONE then VDate tc else VNone)"
    unfolding m by (simp add: ud_def)
  from a b c1 c2 c3 show ?thesis by blast
qed

lemma update_task_effect:
  assumes f: "find_one [(''id'', VStr task_id)] (db_tasks s) = Some old"
    and g: "tu_status body = Given st"
  shows "\<exists>new s'. update_task s task_id tu tc body = (Inr new, s')
            \<and> find_one [(''id'', VStr task_id)] (db_tasks s') = Some new
            \<and> map_of new ''status'' = Some (VStr (TaskStatus_value st))
            \<and> map_of new ''updated_at'' = Some (VDate tu)
            \<and> map_of new ''completed_at'' = Some (if st = DONE then VDate tc else VNone)"
proof -
  note n = non_null_status_given[OF g]
  from update_task_found[OF f n(2), of tu tc] obtain ud where
    u: "update_task s task_id tu tc body =
     (Inr (dict_update old ud),
      s\<lparr>db_tasks := update_one [(''id'', VStr task_id)] ud (db_tasks s)\<rparr>)"
    and d: "distinct (map fst ud)" and i: "''id'' \<notin> fst ` set ud"
    and k: "\<And>k. k \<noteq> ''updated_at'' \<Longrightarrow> k \<noteq> ''completed_at'' \<Longrightarrow>
         map_of ud k = map_of (non_null (TaskUpdate_model_dump body)) k"
    and t: "map_of ud ''updated_at'' = Some (VDate tu)"
    and c: "map_of ud ''completed_at'' =
         (case map_of (non_null (TaskUpdate_model_dump body)) ''status'' of
            None \<Rightarrow> None
          | Some v \<Rightarrow> Some (if v = VStr ''DONE'' then VDate tc else VNone))"
    by blast
  have s: "map_of ud ''status'' = Some (VStr (TaskStatus_value st))"
    using k[of "''status''"] n(1) by simp
  have c': "map_of ud ''completed_at'' = Some (if st = DONE then VDate tc else VNone)"
    unfolding c n(1) by (simp add: TaskStatus_value_DONE)
  have b: "find_one [(''id'', VStr task_id)]
             (db_tasks (s\<lparr>db_tasks := update_one [(''id'', VStr task_id)] ud (db_tasks s)\<rparr>))
           = Some (dict_update old ud)"
    using stored_after_update[OF f d i] by simp
  have m: "map_of (dict_update old ud) = map_of old ++ map_of ud"
    by (rule map_of_dict_update[OF d])
  have c1: "map_of (dict_update old ud) ''status'' = Some (VStr (TaskStatus_value st))"
    unfolding m using s by (simp add: map_add_def)
  have c2: "map_of (dict_update old ud) ''updated_at'' = Some (VDate tu)"
    unfolding m using t by (simp add: map_add_def)
  have c3: "map_of (dict_update old ud) ''completed_at''
              = Some (if st = DONE then VDate tc else VNone)"
    unfolding m using c' by (simp add: map_add_def)
  from u b c1 c2 c3 show ?thesis by blast
qed

text \<open>
  C4. Let the task exist. The status operation, and the general update whose body gives
  a status, both succeed whatever the stored document was (so none of the 16 transitions
  is rejected), and the document found in the store afterwards is the one returned: its
  status is the requested one and its \<open>completed_at\<close> is the clock reading \<open>tc\<close> taken for
  it during the write when the requested status is DONE, and null otherwise. The stored
  document \<open>old\<close> is arbitrary, so this holds regardless of the previous status and the
  previous \<open>completed_at\<close>.
\<close>

theorem C4_status_write_sets_completed_at:
  assumes "find_one [(''id'', VStr task_id)] (db_tasks s) = Some old"
  shows "(\<exists>new s'. update_task_status s task_id tu tc st = (Inr new, s')
            \<and> find_one [(''id'', VStr task_id)] (db_tasks s') = Some new
            \<and> map_of new ''status'' = Some (VStr (TaskStatus_value st))
            \<and> map_of new ''completed_at'' = Some (if st = DONE then VDate tc else VNone))
       \<and> (tu_status body = Given st \<longrightarrow>
           (\<exists>new s'. update_task s task_id tu tc body = (Inr new, s')
            \<and> find_one [(''id'', VStr task_id)] (db_tasks s') = Some new
            \<and> map_of new ''status'' = Some (VStr (TaskStatus_value st))
            \<and> map_of new ''completed_at'' = Some (if st = DONE then VDate tc else VNone)))"
  using update_task_status_effect[OF assms, of tu tc st] update_task_effect[OF assms, of body st tu tc]
  by blast

text \<open>Witness for C4: the DONE task of \<open>four_store\<close> is set to DONE again (its timestamp
  is refreshed) and, by a general update, to TODO (its timestamp is cleared).\<close>

theorem C4_status_write_sets_completed_at_witness:
  "find_one [(''id'', VStr ''t4'')] (db_tasks four_store)
     = Some (mk_task ''t4'' ''p1'' ''DONE'' 0 (VDate 172800000000))
   \<and> (\<exists>new s'. update_task_status four_store ''t4'' 200000000000 200000000001 DONE = (Inr new, s')
         \<and> find_one [(''id'', VStr ''t4'')] (db_tasks s') = Some new
         \<and> map_of new ''status'' = Some (VStr ''DONE'')
         \<and> map_of new ''completed_at'' = Some (VDate 200000000001))
   \<and> (\<exists>new s'. update_task four_store ''t4'' 200000000000 200000000001 reopen_task = (Inr new, s')
         \<and> find_one [(''id'', VStr ''t4'')] (db_tasks s') = Some new
         \<and> map_of new ''status'' = Some (VStr ''TODO'')
         \<and> map_of new ''completed_at'' = Some VNone)"
proof -
  have f: "find_one [(''id'', VStr ''t4'')] (db_tasks four_store)
     = Some (mk_task ''t4'' ''p1'' ''DONE'' 0 (VDate 172800000000))"
    by (simp add: four_store_def store_of_def find_one_def matches_def mk_task_def)
  have g: "tu_status reopen_task = Given TODO" by (simp add: reopen_task_def)
  from C4_status_write_sets_completed_at[OF f, where tu = 200000000000 and tc = 200000000001
      and st = DONE and body = complete_task]
    C4_status_write_sets_completed_at[OF f, where tu = 200000000000 and tc = 200000000001
      and st = TODO and body = reopen_task] f g
  show ?thesis by simp
qed

lemma optional_not_given: "\<not> is_given f \<Longrightarrow> optional None f = None"
  by (cases f) simp_all

lemma non_null_status_only:
  assumes "tu_status body = Given st" and "\<not> is_given (tu_title body)"
    and "\<not> is_given (tu_description body)" and "\<not> is_given (tu_assigned_to body)"
    and "\<not> is_given (tu_priority body)"
  shows "non_null (TaskUpdate_model_dump body) = [(''status'', VStr (TaskStatus_value st))]"
  using assms by (simp add: non_null_def TaskUpdate_model_dump_def optional_not_given)

lemma update_task_status_only:
  assumes "tu_status body = Given st" and "\<not> is_given (tu_title body)"
    and "\<not> is_given (tu_description body)" and "\<not> is_given (tu_assigned_to body)"
    and "\<not> is_given (tu_priority body)"
  shows "update_task s task_id tu tc body = update_task_status s task_id tu tc st"
proof (cases "find_one [(''id'', VStr task_id)] (db_tasks s)")
  case None
  then show ?thesis by (simp add: update_task_def update_task_status_def)
next
  case (Some old)
  have nn: "non_null (TaskUpdate_model_dump body) = [(''status'', VStr (TaskStatus_value st))]"
    by (rule non_null_status_only[OF assms])
  show ?thesis
  proof (cases "st = DONE")
    case True
    then show ?thesis using Some
      by (simp add: update_task_def update_task_status_def nn Let_def dict_in_def dict_get_def)
  next
    case False
    then show ?thesis using Some
      by (simp add: update_task_def update_task_status_def nn Let_def dict_in_def dict_get_def
          TaskStatus_value_DONE)
  qed
qed

text \<open>
  C5. Let the body of the general update give the status \<open>st\<close>, and let both operations
  read the clock alike (\<open>tu\<close> for \<open>updated_at\<close>, \<open>tc\<close> for \<open>completed_at\<close>). If the task
  does not exist both raise the same 404. If it exists both succeed, and the documents
  they store and return agree on \<open>status\<close>, on \<open>completed_at\<close> (the reading \<open>tc\<close> for DONE,
  null otherwise) and on \<open>updated_at\<close>, which both refresh to \<open>tu\<close>. If the body gives
  nothing but the status, the two operations return the same response and leave the
  same store.
\<close>

theorem C5_general_and_status_update_agree:
  assumes g: "tu_status body = Given st"
  shows "(find_one [(''id'', VStr task_id)] (db_tasks s) = None \<longrightarrow>
            update_task s task_id tu tc body = update_task_status s task_id tu tc st)
    \<and> (find_one [(''id'', VStr task_id)] (db_tasks s) \<noteq> None \<longrightarrow>
         (\<exists>n1 s1 n2 s2.
            update_task s task_id tu tc body = (Inr n1, s1)
          \<and> update_task_status s task_id tu tc st = (Inr n2, s2)
          \<and> find_one [(''id'', VStr task_id)] (db_tasks s1) = Some n1
          \<and> find_one [(''id'', VStr task_id)] (db_tasks s2) = Some n2
          \<and> map_of n1 ''status'' = map_of n2 ''status''
          \<and> map_of n1 ''completed_at'' = map_of n2 ''completed_at''
          \<and> map_of n1 ''completed_at'' = Some (if st = DONE then VDate tc else VNone)
          \<and> map_of n1 ''updated_at'' = map_of n2 ''updated_at''
          \<and> map_of n1 ''updated_at'' = Some (VDate tu)))
    \<and> (\<not> is_given (tu_title body) \<and> \<not> is_given (tu_description body)
        \<and> \<not> is_given (tu_assigned_to body) \<and> \<not> is_given (tu_priority body) \<longrightarrow>
          update_task s task_id tu tc body = update_task_status s task_id tu tc st)"
proof (intro conjI impI)
  assume "find_one [(''id'', VStr task_id)] (db_tasks s) = None"
  then show "update_task s task_id tu tc body = update_task_status s task_id tu tc st"
    by (simp add: update_task_def update_task_status_def)
next
  assume "find_one [(''id'', VStr task_id)] (db_tasks s) \<noteq> None"
  then obtain old where f: "find_one [(''id'', VStr task_id)] (db_tasks s) = Some old" by blast
  from update_task_effect[OF f g, of tu tc] obtain n1 s1 where
    1: "update_task s task_id tu tc body = (Inr n1, s1)"
       "find_one [(''id'', VStr task_id)] (db_tasks s1) = Some n1"
       "map_of n1 ''status'' = Some (VStr (TaskStatus_value st))"
       "map_of n1 ''updated_at'' = Some (VDate tu)"
       "map_of n1 ''completed_at'' = Some (if st = DONE then VDate tc else VNone)"
    by blast
  from update_task_status_effect[OF f, of tu tc st] obtain n2 s2 where
    2: "update_task_status s task_id tu tc st = (Inr n2, s2)"
       "find_one [(''id'', VStr task_id)] (db_tasks s2) = Some n2"
       "map_of n2 ''status'' = Some (VStr (TaskStatus_value st))"
       "map_of n2 ''updated_at'' = Some (VDate tu)"
       "map_of n2 ''completed_at'' = Some (if st = DONE then VDate tc else VNone)"
    by blast
  show "\<exists>n1 s1 n2 s2.
            update_task s task_id tu tc body = (Inr n1, s1)
          \<and> update_task_status s task_id tu tc st = (Inr n2, s2)
          \<and> find_one [(''id'', VStr task_id)] (db_tasks s1) = Some n1
          \<and> find_one [(''id'', VStr task_id)] (db_tasks s2) = Some n2
          \<and> map_of n1 ''status'' = map_of n2 ''status''
          \<and> map_of n1 ''completed_at'' = map_of n2 ''completed_at''
          \<and> map_of n1 ''completed_at'' = Some (if st = DONE then VDate tc else VNone)
          \<and> map_of n1 ''updated_at'' = map_of n2 ''updated_at''
          \<and> map_of n1 ''updated_at'' = Some (VDate tu)"
    apply (rule exI[of _ n1], rule exI[of _ s1], rule exI[of _ n2], rule exI[of _ s2])
    using 1 2 by simp
next
  assume "\<not> is_given (tu_title body) \<and> \<not> is_given (tu_description body)
        \<and> \<not> is_given (tu_assigned_to body) \<and> \<not> is_given (tu_priority body)"
  with g show "update_task s task_id tu tc body = update_task_status s task_id tu tc st"
    by (simp add: update_task_status_only)
qed

text \<open>Witness for C5: completing task \<open>t1\<close> of \<open>four_store\<close> by either operation, and the
  same request for an id that is not stored.\<close>

theorem C5_general_and_status_update_agree_witness:
  "tu_status complete_task = Given DONE
   \<and> find_one [(''id'', VStr ''t1'')] (db_tasks four_store) \<noteq> None
   \<and> update_task four_store ''t1'' 5 6 complete_task = update_task_status four_store ''t1'' 5 6 DONE
   \<and> find_one [(''id'', VStr ''t9'')] (db_tasks four_store) = None
   \<and> update_task four_store ''t9'' 5 6 complete_task = update_task_status four_store ''t9'' 5 6 DONE
   \<and> fst (update_task_status four_store ''t1'' 5 6 DONE) =
       Inr [(''id'', VStr ''t1''), (''title'', VStr ''task''), (''description'', VStr ''''),
            (''project_id'', VStr ''p1''), (''assigned_to'', VNone), (''status'', VStr ''DONE''),
            (''priority'', VStr ''MEDIUM''), (''created_at'', VDate 0),
            (''updated_at'', VDate 5), (''completed_at'', VDate 6)]"
proof -
  have g: "tu_status complete_task = Given DONE" by (simp add: complete_task_def)
  have f: "find_one [(''id'', VStr ''t1'')] (db_tasks four_store) \<noteq> None"
    by (simp add: four_store_def store_of_def find_one_def matches_def mk_task_def)
  have n: "find_one [(''id'', VStr ''t9'')] (db_tasks four_store) = None"
    by (simp add: four_store_def store_of_def find_one_def matches_def mk_task_def)
  have o: "\<not> is_given (tu_title complete_task) \<and> \<not> is_given (tu_description complete_task)
        \<and> \<not> is_given (tu_assigned_to complete_task) \<and> \<not> is_given (tu_priority complete_task)"
    by (simp add: complete_task_def)
  have e: "fst (update_task_status four_store ''t1'' 5 6 DONE) =
       Inr [(''id'', VStr ''t1''), (''title'', VStr ''task''), (''description'', VStr ''''),
            (''project_id'', VStr ''p1''), (''assigned_to'', VNone), (''status'', VStr ''DONE''),
            (''priority'', VStr ''MEDIUM''), (''created_at'', VDate 0),
            (''updated_at'', VDate 5), (''completed_at'', VDate 6)]"
    by (simp add: update_task_status_def four_store_def store_of_def find_one_def matches_def
        mk_task_def dict_update_def)
  from C5_general_and_status_update_agree[OF g, where s = four_store and task_id = "''t1''"
      and tu = 5 and tc = 6]
    C5_general_and_status_update_agree[OF g, where s = four_store and task_id = "''t9''"
      and tu = 5 and tc = 6] g f n o e
  show ?thesis by simp
qed
















lemma Task_of_TaskCreate:
  "Task new_id t1 t2 (TaskCreate_model_dump body) =
     (if tc_priority body = Null then Inl ValidationError
      else Inr [(''id'', VStr new_id), (''title'', VStr (tc_title body)),
                (''description'', VStr (tc_description body)),
                (''project_id'', VStr (tc_project_id body)),
                (''assigned_to'', dump_str (optional None (tc_assigned_to body))),
                (''status'', VStr ''TODO''),
                (''priority'', dump_priority (optional (Some MEDIUM) (tc_priority body))),
                (''created_at'', VDate t1), (''updated_at'', VDate t2),
                (''completed_at'', VNone)])"
  by (cases "tc_priority body")
     (simp_all add: Task_def TaskCreate_model_dump_def Let_def dict_get_def)

lemma create_task_InrD:
  assumes "create_task s new_id t1 t2 body = (Inr task, s')"
  shows "task = [(''id'', VStr new_id), (''title'', VStr (tc_title body)),
                (''description'', VStr (tc_description body)),
                (''project_id'', VStr (tc_project_id body)),
                (''assigned_to'', dump_str (optional None (tc_assigned_to body))),
                (''status'', VStr ''TODO''),
                (''priority'', dump_priority (optional (Some MEDIUM) (tc_priority body))),
                (''created_at'', VDate t1), (''updated_at'', VDate t2),
                (''completed_at'', VNone)]"
    and "s' = s\<lparr>db_tasks := db_tasks s @ [task]\<rparr>"
  using assms
  by (auto simp: create_task_def Task_of_TaskCreate Let_def insert_one_def
      split: option.splits if_splits)

lemma loaded_snoc:
  "to_list n (find_docs q (ts @ [t])) = to_list n (find_docs q ts)
   \<or> to_list n (find_docs q (ts @ [t])) = to_list n (find_docs q ts) @ [t]"
  by (cases "n - length (filter (matches q) ts)") (auto simp: to_list_def find_docs_def)

lemma completion_times_snoc_skip:
  "\<not> has_both_timestamps t \<Longrightarrow> completion_times (ts @ [t]) = completion_times ts"
proof (induction ts)
  case Nil
  then show ?case by (auto simp: has_both_timestamps_def)
next
  case (Cons a ts)
  show ?case by (simp only: append_Cons completion_times.simps Cons.IH[OF Cons.prems])
qed

lemma done_tasks_snoc:
  assumes "\<not> status_is ''DONE'' t"
  shows "filter (status_is ''DONE'') (to_list n (find_docs q (ts @ [t])))
           = filter (status_is ''DONE'') (to_list n (find_docs q ts))"
  using loaded_snoc[of n q ts t] assms by auto

lemma completion_times_loaded_snoc:
  assumes "\<not> has_both_timestamps t"
  shows "completion_times (to_list n (find_docs q (ts @ [t])))
           = completion_times (to_list n (find_docs q ts))"
  using loaded_snoc[of n q ts t] completion_times_snoc_skip[OF assms] by auto

lemma find_done_snoc:
  assumes "\<not> status_is ''DONE'' t"
  shows "find_docs [(''status'', VStr ''DONE'')] (ts @ [t]) = find_docs [(''status'', VStr ''DONE'')] ts"
  using assms by (auto simp: find_docs_def matches_single status_is_def dict_get_def)

lemma project_metrics_after_insert:
  assumes nd: "\<not> status_is ''DONE'' t" and nb: "\<not> has_both_timestamps t"
    and m': "get_project_metrics py (s\<lparr>db_tasks := db_tasks s @ [t]\<rparr>) p = Inr m'"
  shows "\<exists>m. get_project_metrics py s p = Inr m
           \<and> completed_tasks m' = completed_tasks m
           \<and> average_completion_time_days m' = average_completion_time_days m"
proof -
  let ?q = "[(''project_id'', VStr p)]"
  let ?s' = "s\<lparr>db_tasks := db_tasks s @ [t]\<rparr>"
  define L where "L = to_list 1000 (find_docs ?q (db_tasks s))"
  define L' where "L' = to_list 1000 (find_docs ?q (db_tasks ?s'))"
  have ct: "completion_times L' = completion_times L"
    unfolding L_def L'_def using completion_times_loaded_snoc[OF nb] by simp
  have dn: "filter (status_is ''DONE'') L' = filter (status_is ''DONE'') L"
    unfolding L_def L'_def using done_tasks_snoc[OF nd] by simp
  note d = get_project_metrics_InrD[OF m' L'_def]
  from d(1) obtain proj where pr: "find_one [(''id'', VStr p)] (db_projects s) = Some proj"
    by auto
  from d(6) obtain cts where c: "completion_times L' = Inr cts"
    and a: "average_completion_time_days m' = round_if_truthy (avg_completion_time py cts)"
    by (elim exE conjE)
  have cL: "completion_times L = Inr cts" using c ct by simp
  define m where "m = \<lparr>total_tasks = length L,
       completed_tasks = length (filter (status_is ''DONE'') L),
       in_progress_tasks = length (filter (status_is ''IN_PROGRESS'') L),
       todo_tasks = length (filter (status_is ''TODO'') L),
       average_completion_time_days = round_if_truthy (avg_completion_time py cts),
       completion_rate =
         py_round (if 0 < length L
                   then fmul (truediv (int (length (filter (status_is ''DONE'') L)))
                                      (int (length L)))
                             (float_of_int 100)
                   else 0) 2\<rparr>"
  have g: "get_project_metrics py s p = Inr m"
    unfolding get_project_metrics_def Let_def pr L_def[symmetric] cL m_def by simp
  have "completed_tasks m' = completed_tasks m" using d(3) dn by (simp add: m_def)
  moreover have "average_completion_time_days m' = average_completion_time_days m"
    using a by (simp add: m_def)
  ultimately show ?thesis using g by (intro exI[of _ m]) simp
qed

lemma overview_metrics_after_insert:
  assumes nd: "\<not> status_is ''DONE'' t"
    and m': "get_overview_metrics py (s\<lparr>db_tasks := db_tasks s @ [t]\<rparr>) = Inr om'"
  shows "\<exists>om. get_overview_metrics py s = Inr om
           \<and> overview_completed_tasks om' = overview_completed_tasks om
           \<and> overview_average_completion_time_days om'
               = overview_average_completion_time_days om"
proof -
  have f: "find_docs [(''status'', VStr ''DONE'')] (db_tasks s @ [t])
             = find_docs [(''status'', VStr ''DONE'')] (db_tasks s)"
    by (rule find_done_snoc[OF nd])
  show ?thesis
    using m' by (auto simp: get_overview_metrics_def Let_def f split: sum.splits)
qed

text \<open>
  C10, as stated, fails: the claim says that \<open>updated_at\<close> of a created task equals its
  creation time. The model \<open>Task\<close> gives \<^verbatim>\<open>created_at\<close> and \<^verbatim>\<open>updated_at\<close> a default factory
  each, \<^verbatim>\<open>lambda: datetime.now(timezone.utc)\<close>, so a task is created with two readings of
  the clock, the second taken after the first. When the clock has advanced in between
  (here by one microsecond), \<open>updated_at\<close> differs from \<open>created_at\<close>.
\<close>

theorem C10_counterexample:
  "\<exists>task s'. create_task four_store ''t5'' 100 101 new_task = (Inr task, s')
     \<and> map_of task ''created_at'' = Some (VDate 100)
     \<and> map_of task ''updated_at'' = Some (VDate 101)
     \<and> map_of task ''updated_at'' \<noteq> map_of task ''created_at''"
proof -
  have fp: "find_one [(''id'', VStr ''p1'')] (db_projects four_store) = Some demo_project"
    by (simp add: four_store_def store_of_def find_one_def matches_def demo_project_def)
  have fu: "find_one [(''id'', VStr ''u1'')] (db_users four_store) = Some demo_user"
    by (simp add: four_store_def store_of_def find_one_def matches_def demo_user_def)
  show ?thesis
    by (simp add: create_task_def Task_of_TaskCreate insert_one_def new_task_def fp fu Let_def)
qed

text \<open>
  C10 (amended). Whenever the create operation returns a task, the task has status TODO
  and a null \<open>completed_at\<close>; \<open>created_at\<close> and \<open>updated_at\<close> are the two readings of the
  clock that the default factories take while the task is constructed (\<open>t_created\<close>,
  then \<open>t_updated\<close>); the priority is MEDIUM when the body omits it. The body type
  \<open>TaskCreate\<close> has no status and no \<open>completed_at\<close> field, so this holds for every body.
  The task is appended to the collection, and it does not count as completed: the
  per-project metrics of every project, and the overview, report the same number of
  completed tasks and the same average completion time as before.
\<close>

theorem C10_created_task_starts_todo:
  assumes "create_task s new_id t_created t_updated task_data = (Inr task, s')"
  shows "map_of task ''status'' = Some (VStr ''TODO'')
    \<and> map_of task ''completed_at'' = Some VNone
    \<and> map_of task ''created_at'' = Some (VDate t_created)
    \<and> map_of task ''updated_at'' = Some (VDate t_updated)
    \<and> (tc_priority task_data = Absent \<longrightarrow> map_of task ''priority'' = Some (VStr ''MEDIUM''))
    \<and> db_tasks s' = db_tasks s @ [task]
    \<and> (\<forall>p m'. get_project_metrics py s' p = Inr m' \<longrightarrow>
          (\<exists>m. get_project_metrics py s p = Inr m
             \<and> completed_tasks m' = completed_tasks m
             \<and> average_completion_time_days m' = average_completion_time_days m))
    \<and> (\<forall>om'. get_overview_metrics py s' = Inr om' \<longrightarrow>
          (\<exists>om. get_overview_metrics py s = Inr om
             \<and> overview_completed_tasks om' = overview_completed_tasks om
             \<and> overview_average_completion_time_days om'
                 = overview_average_completion_time_days om))"
proof -
  note d = create_task_InrD[OF assms]
  have st: "map_of task ''status'' = Some (VStr ''TODO'')" unfolding d(1) by simp
  have co: "map_of task ''completed_at'' = Some VNone" unfolding d(1) by simp
  have cr: "map_of task ''created_at'' = Some (VDate t_created)" unfolding d(1) by simp
  have up: "map_of task ''updated_at'' = Some (VDate t_updated)" unfolding d(1) by simp
  have pr: "tc_priority task_data = Absent \<longrightarrow> map_of task ''priority'' = Some (VStr ''MEDIUM'')"
    unfolding d(1) by simp
  have ts: "db_tasks s' = db_tasks s @ [task]" unfolding d(2) by simp
  have nd: "\<not> status_is ''DONE'' task" using st by (simp add: status_is_def dict_get_def)
  have nb: "\<not> has_both_timestamps task"
    using co by (simp add: has_both_timestamps_def dict_get_def)
  have pm: "\<forall>p m'. get_project_metrics py s' p = Inr m' \<longrightarrow>
          (\<exists>m. get_project_metrics py s p = Inr m
             \<and> completed_tasks m' = completed_tasks m
             \<and> average_completion_time_days m' = average_completion_time_days m)"
    unfolding d(2) by (intro allI impI) (rule project_metrics_after_insert[OF nd nb])
  have om: "\<forall>om'. get_overview_metrics py s' = Inr om' \<longrightarrow>
          (\<exists>om. get_overview_metrics py s = Inr om
             \<and> overview_completed_tasks om' = overview_completed_tasks om
             \<and> overview_average_completion_time_days om'
                 = overview_average_completion_time_days om)"
    unfolding d(2) by (intro allI impI) (rule overview_metrics_after_insert[OF nd])
  show ?thesis
    by (intro conjI) (rule st co cr up pr ts pm om)+
qed

text \<open>Witness for C10: a task without priority is created in the project of
  \<open>four_store\<close>, which goes on reporting one completed task.\<close>

theorem C10_created_task_starts_todo_witness:
  "create_task four_store ''t5'' 100 101 new_task =
     (Inr [(''id'', VStr ''t5''), (''title'', VStr ''write report''),
           (''description'', VStr ''quarterly''), (''project_id'', VStr ''p1''),
           (''assigned_to'', VStr ''u1''), (''status'', VStr ''TODO''),
           (''priority'', VStr ''MEDIUM''), (''created_at'', VDate 100),
           (''updated_at'', VDate 101), (''completed_at'', VNone)],
      four_store\<lparr>db_tasks := db_tasks four_store @
         [[(''id'', VStr ''t5''), (''title'', VStr ''write report''),
           (''description'', VStr ''quarterly''), (''project_id'', VStr ''p1''),
           (''assigned_to'', VStr ''u1''), (''status'', VStr ''TODO''),
           (''priority'', VStr ''MEDIUM''), (''created_at'', VDate 100),
           (''updated_at'', VDate 101), (''completed_at'', VNone)]]\<rparr>)
   \<and> tc_priority new_task = Absent
   \<and> (\<exists>m. get_project_metrics Since_3_12 four_store ''p1'' = Inr m \<and> completed_tasks m = 1)"
proof -
  let ?task = "[(''id'', VStr ''t5''), (''title'', VStr ''write report''),
           (''description'', VStr ''quarterly''), (''project_id'', VStr ''p1''),
           (''assigned_to'', VStr ''u1''), (''status'', VStr ''TODO''),
           (''priority'', VStr ''MEDIUM''), (''created_at'', VDate 100),
           (''updated_at'', VDate 101), (''completed_at'', VNone)]"
  let ?s' = "four_store\<lparr>db_tasks := db_tasks four_store @ [?task]\<rparr>"
  have fp: "find_one [(''id'', VStr ''p1'')] (db_projects four_store) = Some demo_project"
    by (simp add: four_store_def store_of_def find_one_def matches_def demo_project_def)
  have fu: "find_one [(''id'', VStr ''u1'')] (db_users four_store) = Some demo_user"
    by (simp add: four_store_def store_of_def find_one_def matches_def demo_user_def)
  have e: "create_task four_store ''t5'' 100 101 new_task = (Inr ?task, ?s')"
    by (simp add: create_task_def Task_of_TaskCreate insert_one_def new_task_def fp fu Let_def)
  have a: "tc_priority new_task = Absent" by (simp add: new_task_def)
  have g: "get_project_metrics Since_3_12 ?s' ''p1'' =
     Inr \<lparr>total_tasks = 5, completed_tasks = 1, in_progress_tasks = 1, todo_tasks = 2,
          average_completion_time_days = Some 2, completion_rate = 20\<rparr>"
    by (simp add: four_store_def eval_defs one_of_five)
  note inst = C10_created_task_starts_todo[OF e, where py = Since_3_12]
  have "\<exists>m. get_project_metrics Since_3_12 four_store ''p1'' = Inr m \<and> completed_tasks m = 1"
    using mp[OF spec[OF spec[OF conjunct1[OF conjunct2[OF conjunct2[OF conjunct2[OF
            conjunct2[OF conjunct2[OF conjunct2[OF inst]]]]]]]]] g]
    by (elim exE conjE) (rule exI, simp)
  with e a show ?thesis by simp
qed

end
